theory Spec2Isabelle
  imports Complex_Main "HOL-Library.Word" "HOL-Library.AList"
begin

unbundle bit_operations_syntax

section \<open>Data model of the floor plan generator\<close>

text \<open>
  Shallow embedding of \<^verbatim>\<open>src/floorPlan/generator.js\<close>.

  Conventions of the embedding:
  \<^item> JavaScript numbers that hold grid coordinates, counts and seeds are \<open>int\<close> or \<open>nat\<close>;
    numbers that hold lengths, offsets, scales and ratios are \<open>real\<close> (IEEE rounding is
    outside the embedding; every statement below is about exact arithmetic).
  \<^item> A cell key \<^verbatim>\<open>`${x},${y}`\<close> is the pair \<open>(x, y)\<close>; an edge key
    \<^verbatim>\<open>`${x1},${y1}|${x2},${y2}`\<close> is the edge record itself. Both string formats are
    injective on integers, so key equality is equality of the pair or record.
  \<^item> The ids \<^verbatim>\<open>`room-${n}`\<close> and \<^verbatim>\<open>`hall-${n}`\<close> are the number \<open>n\<close>.
  \<^item> A JavaScript \<^verbatim>\<open>Set\<close> is a duplicate-free list in insertion order, a
    \<^verbatim>\<open>Map\<close> that is only looked up is a HOL map, a \<^verbatim>\<open>Map\<close> that is iterated is an
    association list in insertion order.
  \<^item> The closure returned by \<^verbatim>\<open>createRng\<close> is its 32-bit state, passed explicitly.
\<close>

type_synonym cell = "int \<times> int"

record edge =
  e_x1 :: int
  e_y1 :: int
  e_x2 :: int
  e_y2 :: int

datatype opening_type = Door | Window | Wall

record wall_opening =
  o_wallKey :: edge
  o_hallwayId :: "nat option"
  o_type :: opening_type
  o_start :: real
  o_end :: real
  o_roomId :: "nat option"

record segment =
  s_x1 :: real
  s_y1 :: real
  s_x2 :: real
  s_y2 :: real
  s_type :: opening_type

record room_data =
  rd_id :: nat
  rd_x :: int
  rd_y :: int
  rd_width :: int
  rd_height :: int
  rd_cells :: "cell list"
  rd_labelX :: real
  rd_labelY :: real

datatype hallway_shape = ShapeL | ShapeU | ShapeS | ShapeT

record hallway_data =
  hd_id :: nat
  hd_shape :: hallway_shape
  hd_labelX :: real
  hd_labelY :: real
  hd_cells :: "cell list"

record bounds =
  b_cols :: int
  b_rows :: int

text \<open>The options record after \<^verbatim>\<open>{ ...DEFAULT_OPTIONS, ...userOptions }\<close> and clamping.\<close>

record options =
  opt_width :: real
  opt_height :: real
  opt_hallwayCount :: int
  opt_doorCount :: int
  opt_roomShapeStyle :: int
  opt_doorWidth :: real
  opt_windowWidth :: real
  opt_maxWindowCount :: int
  opt_seed :: int

text \<open>
  What the caller passes. A numeric field is \<open>None\<close> when it is absent or not a number
  (\<^verbatim>\<open>Number(v)\<close> is \<^verbatim>\<open>NaN\<close>); a flag is \<open>None\<close> when it is absent.
\<close>

record user_options =
  u_width :: "real option"
  u_height :: "real option"
  u_hallwayCount :: "real option"
  u_doorCount :: "real option"
  u_roomShapeStyle :: "real option"
  u_doorWidth :: "real option"
  u_windowWidth :: "real option"
  u_maxWindowCount :: "real option"
  u_seed :: "int option"
  u_strictDoorCount :: "bool option"
  u_requireExteriorExits :: "bool option"

text \<open>The record one attempt returns (\<^verbatim>\<open>generatePlanAttempt\<close>).\<close>

record attempt =
  a_rooms :: "room_data list"
  a_hallways :: "hallway_data list"
  a_walls :: "segment list"
  a_openings :: "segment list"
  a_connectedDoors :: "wall_opening list"
  a_hasExteriorExit :: bool

record plan_meta =
  m_width :: real
  m_height :: real
  m_seed :: int
  m_roomCount :: nat
  m_hallwayCount :: nat
  m_requestedDoorCount :: int
  m_placedDoorCount :: nat
  m_hasExteriorExit :: bool
  m_windowCount :: nat
  m_wallCount :: nat

record plan =
  p_meta :: plan_meta
  p_rooms :: "room_data list"
  p_hallways :: "hallway_data list"
  p_walls :: "segment list"
  p_openings :: "segment list"

text \<open>The three \<^verbatim>\<open>throw new Error(...)\<close> of \<^verbatim>\<open>generateFloorPlan\<close>.\<close>

datatype gen_error =
  NoHallwayLayout
  | DoorCountUnmet int
  | ExteriorExitUnmet

section \<open>Seeded random numbers\<close>

type_synonym rng = "32 word"

definition createRng :: "int \<Rightarrow> rng" where
  "createRng seed = (let state = (word_of_int seed :: 32 word) in if state = 0 then 1 else state)"

definition rngState :: "rng \<Rightarrow> rng" where
  "rngState state0 =
     (let state1 = state0 XOR push_bit 13 state0;
          state2 = state1 XOR drop_bit 17 state1;
          state3 = state2 XOR push_bit 5 state2
      in state3)"

definition rngNext :: "rng \<Rightarrow> real \<times> rng" where
  "rngNext state0 = (let state3 = rngState state0 in (real (unat state3) / 4294967296, state3))"

definition randomInt :: "rng \<Rightarrow> int \<Rightarrow> int \<Rightarrow> int \<times> rng" where
  "randomInt g minInclusive maxInclusive =
     (let (r, g') = rngNext g
      in (\<lfloor>r * real_of_int (maxInclusive - minInclusive + 1)\<rfloor> + minInclusive, g'))"

definition clampNumber :: "real \<Rightarrow> real \<Rightarrow> real \<Rightarrow> real" where
  "clampNumber v lo hi = max lo (min hi v)"

section \<open>Edges and wall merging\<close>

record wall =
  w_edge :: edge
  w_hallwayId :: "nat option"
  w_roomId :: "nat option"

record hallway_group =
  hg_id :: nat
  hg_shape :: hallway_shape
  hg_cells :: "cell list"

definition normalizeEdge :: "int \<Rightarrow> int \<Rightarrow> int \<Rightarrow> int \<Rightarrow> edge" where
  "normalizeEdge x1 y1 x2 y2 =
     (if x1 < x2 \<or> (x1 = x2 \<and> y1 \<le> y2)
      then \<lparr> e_x1 = x1, e_y1 = y1, e_x2 = x2, e_y2 = y2 \<rparr>
      else \<lparr> e_x1 = x2, e_y1 = y2, e_x2 = x1, e_y2 = y1 \<rparr>)"

text \<open>\<^verbatim>\<open>Math.hypot(edge.x2 - edge.x1, edge.y2 - edge.y1)\<close>.\<close>

definition edgeLength :: "edge \<Rightarrow> real" where
  "edgeLength e = sqrt (real_of_int ((e_x2 e - e_x1 e)\<^sup>2 + (e_y2 e - e_y1 e)\<^sup>2))"

text \<open>
  The idiom \<^verbatim>\<open>if (!m.has(k)) m.set(k, []); m.get(k).push(v)\<close> on a \<^verbatim>\<open>Map\<close> that is
  iterated later: keys stay in the order of their first insertion.
\<close>

fun groupPush :: "('k \<times> 'v list) list \<Rightarrow> 'k \<Rightarrow> 'v \<Rightarrow> ('k \<times> 'v list) list" where
  "groupPush [] k v = [(k, [v])]"
| "groupPush ((k', vs) # rest) k v =
     (if k' = k then (k', vs @ [v]) # rest else (k', vs) # groupPush rest k v)"

definition groupByKey :: "('v \<Rightarrow> 'k) \<Rightarrow> 'v list \<Rightarrow> ('k \<times> 'v list) list" where
  "groupByKey f xs = foldl (\<lambda>acc v. groupPush acc (f v) v) [] xs"

datatype axis = AxisH | AxisV

record run =
  r_start :: int
  r_end :: int
  r_axis :: axis
  r_coord :: int

definition runOfEdge :: "edge \<Rightarrow> run" where
  "runOfEdge e =
     (let isHorizontal = (e_y1 e = e_y2 e);
          ax = (if isHorizontal then AxisH else AxisV);
          coord = (if isHorizontal then e_y1 e else e_x1 e);
          start = (if isHorizontal then e_x1 e else e_y1 e);
          fin = (if isHorizontal then e_x2 e else e_y2 e)
      in \<lparr> r_start = min start fin, r_end = max start fin, r_axis = ax, r_coord = coord \<rparr>)"

text \<open>The inner loop of \<^verbatim>\<open>mergeCollinearWalls\<close> over one sorted bucket; \<open>cur\<close> is \<^verbatim>\<open>current\<close>.\<close>

fun mergeRuns :: "run option \<Rightarrow> run list \<Rightarrow> run list" where
  "mergeRuns None [] = []"
| "mergeRuns (Some cur) [] = [cur]"
| "mergeRuns None (item # rest) = mergeRuns (Some item) rest"
| "mergeRuns (Some cur) (item # rest) =
     (if real_of_int (r_start item) \<le> real_of_int (r_end cur) + 1 / 1000000
      then mergeRuns (Some (cur\<lparr> r_end := max (r_end cur) (r_end item) \<rparr>)) rest
      else cur # mergeRuns (Some item) rest)"

definition edgeOfRun :: "run \<Rightarrow> edge" where
  "edgeOfRun entry =
     (if r_axis entry = AxisH
      then normalizeEdge (r_start entry) (r_coord entry) (r_end entry) (r_coord entry)
      else normalizeEdge (r_coord entry) (r_start entry) (r_coord entry) (r_end entry))"

definition mergeCollinearWalls :: "edge list \<Rightarrow> edge list" where
  "mergeCollinearWalls rawWalls =
     (let buckets = groupByKey (\<lambda>r. (r_axis r, r_coord r)) (map runOfEdge rawWalls);
          merged = concat (map (\<lambda>(k, items). mergeRuns None (sort_key r_start items)) buckets)
      in map edgeOfRun merged)"

text \<open>Raw room walls are pairs of an edge and the room id.\<close>

definition mergeCollinearWallsWithRoomId :: "(edge \<times> nat) list \<Rightarrow> wall list" where
  "mergeCollinearWallsWithRoomId rawWalls =
     (let byRoom = groupByKey snd rawWalls
      in concat (map (\<lambda>(roomId, walls).
           map (\<lambda>e. \<lparr> w_edge = e, w_hallwayId = None, w_roomId = Some roomId \<rparr>)
             (mergeCollinearWalls (map fst walls))) byRoom))"

text \<open>\<^verbatim>\<open>Set.prototype.add\<close>.\<close>

definition setAdd :: "'a list \<Rightarrow> 'a \<Rightarrow> 'a list" where
  "setAdd xs x = (if x \<in> set xs then xs else xs @ [x])"

text \<open>
  \<^verbatim>\<open>buildHallwayGrid\<close>: a \<^verbatim>\<open>rows \<times> cols\<close> array that holds the hallway marker at the
  hallway cells inside the bounds. \<^verbatim>\<open>grid[y]?.[x] === HALLWAY_MARKER\<close> is \<open>gridIsHallway\<close>:
  an index outside the array reads \<^verbatim>\<open>undefined\<close>.
\<close>

record hallway_grid =
  hgr_rows :: int
  hgr_cols :: int
  hgr_marked :: "cell list"

definition buildHallwayGrid :: "bounds \<Rightarrow> cell list \<Rightarrow> hallway_grid" where
  "buildHallwayGrid bnds hallwayCells =
     \<lparr> hgr_rows = b_rows bnds, hgr_cols = b_cols bnds,
       hgr_marked = filter (\<lambda>(x, y). x \<ge> 0 \<and> x < b_cols bnds \<and> y \<ge> 0 \<and> y < b_rows bnds)
                      hallwayCells \<rparr>"

definition gridIsHallway :: "hallway_grid \<Rightarrow> int \<Rightarrow> int \<Rightarrow> bool" where
  "gridIsHallway grid x y =
     (0 \<le> y \<and> y < hgr_rows grid \<and> 0 \<le> x \<and> x < hgr_cols grid \<and> (x, y) \<in> set (hgr_marked grid))"

section \<open>Opening compiler\<close>

definition clampOpening :: "real \<Rightarrow> wall_opening \<Rightarrow> wall_opening" where
  "clampOpening len opn =
     opn\<lparr> o_start := max 0 (min len (o_start opn)), o_end := max 0 (min len (o_end opn)) \<rparr>"

text \<open>The cursor loop of \<^verbatim>\<open>createWallSegmentsFromOpenings\<close>: the solid intervals and the final cursor.\<close>

fun cutSegments :: "real \<Rightarrow> wall_opening list \<Rightarrow> (real \<times> real) list \<times> real" where
  "cutSegments cursor [] = ([], cursor)"
| "cutSegments cursor (opn # rest) =
     (let seg = (if o_start opn > cursor then [(cursor, o_start opn)] else []);
          (more, cursor') = cutSegments (max cursor (o_end opn)) rest
      in (seg @ more, cursor'))"

definition createWallSegmentsFromOpenings :: "wall \<Rightarrow> wall_opening list \<Rightarrow> segment list" where
  "createWallSegmentsFromOpenings wl openings =
     (let len = edgeLength (w_edge wl);
          sorted = filter (\<lambda>opn. o_end opn > o_start opn)
                     (map (clampOpening len) (sort_key o_start openings));
          (cut, cursor) = cutSegments 0 sorted;
          segments = cut @ (if cursor < len then [(cursor, len)] else []);
          dx = real_of_int (e_x2 (w_edge wl) - e_x1 (w_edge wl));
          dy = real_of_int (e_y2 (w_edge wl) - e_y1 (w_edge wl));
          invLength = (if len = 0 then 0 else 1 / len)
      in map (\<lambda>(a, b).
           \<lparr> s_x1 = real_of_int (e_x1 (w_edge wl)) + dx * a * invLength,
             s_y1 = real_of_int (e_y1 (w_edge wl)) + dy * a * invLength,
             s_x2 = real_of_int (e_x1 (w_edge wl)) + dx * b * invLength,
             s_y2 = real_of_int (e_y1 (w_edge wl)) + dy * b * invLength,
             s_type = Wall \<rparr>)
         (filter (\<lambda>(a, b). b - a > 8 / 100) segments))"

definition createOpeningGlyph :: "edge \<Rightarrow> wall_opening \<Rightarrow> segment option" where
  "createOpeningGlyph e opn =
     (let len = edgeLength e
      in if len = 0 then None
         else (let dx = real_of_int (e_x2 e - e_x1 e);
                   dy = real_of_int (e_y2 e - e_y1 e);
                   invLength = 1 / len
               in Some \<lparr> s_x1 = real_of_int (e_x1 e) + dx * o_start opn * invLength,
                         s_y1 = real_of_int (e_y1 e) + dy * o_start opn * invLength,
                         s_x2 = real_of_int (e_x1 e) + dx * o_end opn * invLength,
                         s_y2 = real_of_int (e_y1 e) + dy * o_end opn * invLength,
                         s_type = o_type opn \<rparr>))"

text \<open>\<^verbatim>\<open>openingsByWall.get(key) ?? []\<close>: the openings on one wall key, in the order of \<^verbatim>\<open>allOpenings\<close>.\<close>

definition openingsOnWall :: "wall_opening list \<Rightarrow> edge \<Rightarrow> wall_opening list" where
  "openingsOnWall allOpenings key = filter (\<lambda>opn. o_wallKey opn = key) allOpenings"

text \<open>The two output arrays of \<^verbatim>\<open>generatePlanAttempt\<close>: \<^verbatim>\<open>walls\<close> and \<^verbatim>\<open>openingGlyphs\<close>.\<close>

definition compileWalls :: "wall list \<Rightarrow> wall_opening list \<Rightarrow> segment list" where
  "compileWalls allWalls allOpenings =
     concat (map (\<lambda>wl. createWallSegmentsFromOpenings wl (openingsOnWall allOpenings (w_edge wl)))
               allWalls)"

definition compileOpenings :: "wall list \<Rightarrow> wall_opening list \<Rightarrow> segment list" where
  "compileOpenings allWalls allOpenings =
     concat (map (\<lambda>wl. List.map_filter (createOpeningGlyph (w_edge wl))
                        (openingsOnWall allOpenings (w_edge wl)))
               allWalls)"

section \<open>Hallway carver\<close>

text \<open>The two \<^verbatim>\<open>while\<close> loops of \<^verbatim>\<open>collectPolylinePath\<close>: the coordinates stepped through from \<open>cur\<close> to \<open>target\<close>.\<close>

function stepsTo :: "int \<Rightarrow> int \<Rightarrow> int list" where
  "stepsTo cur target =
     (if cur \<noteq> target
      then (let cur' = cur + (if target > cur then 1 else - 1) in cur' # stepsTo cur' target)
      else [])"
  by pat_completeness auto
termination
  by (relation "measure (\<lambda>(cur, target). nat \<bar>target - cur\<bar>)") auto

fun polylineFrom :: "cell \<Rightarrow> cell list \<Rightarrow> cell list" where
  "polylineFrom cur [] = []"
| "polylineFrom cur (nxt # rest) =
     map (\<lambda>x. (x, snd cur)) (stepsTo (fst cur) (fst nxt))
     @ map (\<lambda>y. (fst nxt, y)) (stepsTo (snd cur) (snd nxt))
     @ polylineFrom nxt rest"

definition collectPolylinePath :: "cell list \<Rightarrow> cell list" where
  "collectPolylinePath points =
     (case points of [] \<Rightarrow> [] | p # rest \<Rightarrow> p # polylineFrom p rest)"

definition stampHallwayCell :: "cell list \<Rightarrow> bounds \<Rightarrow> int \<Rightarrow> int \<Rightarrow> int \<Rightarrow> cell list" where
  "stampHallwayCell hallwayCells bnds x y brushRadius =
     foldl (\<lambda>cells (nx, ny).
              if nx < 0 \<or> nx \<ge> b_cols bnds \<or> ny < 0 \<or> ny \<ge> b_rows bnds then cells
              else setAdd cells (nx, ny))
       hallwayCells
       (concat (map (\<lambda>dy. map (\<lambda>dx. (x + dx, y + dy)) [- brushRadius .. brushRadius])
                  [- brushRadius .. brushRadius]))"

definition makeCenterlinePoints :: "hallway_shape \<Rightarrow> bounds \<Rightarrow> rng \<Rightarrow> cell list \<times> rng" where
  "makeCenterlinePoints shape bnds g =
     (let margin = 3;
          minX = margin;
          maxX = max (minX + 1) (b_cols bnds - margin - 1);
          minY = margin;
          maxY = max (minY + 1) (b_rows bnds - margin - 1);
          (xA, g1) = randomInt g minX maxX;
          (xB, g2) = randomInt g1 minX maxX;
          (xC, g3) = randomInt g2 minX maxX;
          (yA, g4) = randomInt g3 minY maxY;
          (yB, g5) = randomInt g4 minY maxY;
          (yC, g6) = randomInt g5 minY maxY
      in case shape of
           ShapeU \<Rightarrow>
             (let leftX = min xA xB; rightX = max xA xB; topY = min yA yB; bottomY = max yA yC
              in ([(leftX, topY), (leftX, bottomY), (rightX, bottomY), (rightX, topY)], g6))
         | ShapeT \<Rightarrow>
             (let stemX = xA; topY = min yA yB; bottomY = max yA yB;
                  leftX = min xB xC; rightX = max xB xC;
                  (branchY, g7) = randomInt g6 topY bottomY
              in ([(stemX, topY), (stemX, bottomY), (leftX, branchY), (rightX, branchY)], g7))
         | ShapeS \<Rightarrow> ([(xA, yA), (xB, yA), (xB, yC), (xC, yC), (xC, yB)], g6)
         | ShapeL \<Rightarrow> ([(xA, yA), (xB, yA), (xB, yB)], g6))"

definition generateHallwayCells :: "bounds \<Rightarrow> hallway_shape \<Rightarrow> int \<Rightarrow> rng \<Rightarrow> cell list \<times> rng" where
  "generateHallwayCells bnds shape corridorWidthCells g =
     (let (centerline, g') = makeCenterlinePoints shape bnds g;
          brushRadius = max 0 ((corridorWidthCells - 1) div 2);
          pathCells = collectPolylinePath centerline
      in (foldl (\<lambda>cells c. stampHallwayCell cells bnds (fst c) (snd c) brushRadius) [] pathCells, g'))"

text \<open>\<^verbatim>\<open>randomChoice(rng, ['L', 'U', 'S', 'T'])\<close>.\<close>

definition randomShape :: "rng \<Rightarrow> hallway_shape \<times> rng" where
  "randomShape g = (let (i, g') = randomInt g 0 3 in ([ShapeL, ShapeU, ShapeS, ShapeT] ! nat i, g'))"

text \<open>The attempt loop for one hallway; \<open>n\<close> attempts remain. \<open>None\<close>: no candidate was large enough.\<close>

fun tryHallway ::
  "bounds \<Rightarrow> int \<Rightarrow> nat \<Rightarrow> rng \<Rightarrow> (hallway_shape \<times> cell list) option \<times> rng"
where
  "tryHallway bnds corridorWidthCells 0 g = (None, g)"
| "tryHallway bnds corridorWidthCells (Suc n) g =
     (let (shape, g1) = randomShape g;
          (candidate, g2) = generateHallwayCells bnds shape corridorWidthCells g1
      in if length candidate < 10 then tryHallway bnds corridorWidthCells n g2
         else (Some (shape, candidate), g2))"

text \<open>The outer loop of \<^verbatim>\<open>buildHallwayGroups\<close>; \<open>n\<close> hallways remain.\<close>

fun hallwayLoop ::
  "bounds \<Rightarrow> int \<Rightarrow> nat \<Rightarrow> cell list \<Rightarrow> hallway_group list \<Rightarrow> rng
   \<Rightarrow> cell list \<times> hallway_group list \<times> rng"
where
  "hallwayLoop bnds corridorWidthCells 0 combined groups g = (combined, groups, g)"
| "hallwayLoop bnds corridorWidthCells (Suc n) combined groups g =
     (case tryHallway bnds corridorWidthCells 12 g of
        (Some (shape, candidate), g1) \<Rightarrow>
          hallwayLoop bnds corridorWidthCells n (foldl setAdd combined candidate)
            (groups @ [\<lparr> hg_id = length groups + 1, hg_shape = shape, hg_cells = candidate \<rparr>]) g1
      | (None, g1) \<Rightarrow>
          if groups = []
          then (let (fallbackShape, g2) = randomShape g1;
                    (fallback, g3) = generateHallwayCells bnds fallbackShape corridorWidthCells g2
                in hallwayLoop bnds corridorWidthCells n (foldl setAdd combined fallback)
                     (groups @ [\<lparr> hg_id = 1, hg_shape = fallbackShape, hg_cells = fallback \<rparr>]) g3)
          else hallwayLoop bnds corridorWidthCells n combined groups g1)"

definition buildHallwayGroups ::
  "bounds \<Rightarrow> int \<Rightarrow> int \<Rightarrow> rng \<Rightarrow> cell list \<times> hallway_group list \<times> rng"
where
  "buildHallwayGroups bnds hallwayCount corridorWidthCells g =
     hallwayLoop bnds corridorWidthCells (nat hallwayCount) [] [] g"

text \<open>
  \<^verbatim>\<open>buildHallwayOwnershipGrid\<close>: the id of the last group that holds the cell, for a cell
  inside the bounds.
\<close>

definition hallwayOwnerAt :: "bounds \<Rightarrow> hallway_group list \<Rightarrow> int \<Rightarrow> int \<Rightarrow> nat option" where
  "hallwayOwnerAt bnds hallwayGroups x y =
     (if 0 \<le> x \<and> x < b_cols bnds \<and> 0 \<le> y \<and> y < b_rows bnds
      then (case find (\<lambda>grp. (x, y) \<in> set (hg_cells grp)) (rev hallwayGroups) of
              None \<Rightarrow> None
            | Some grp \<Rightarrow> Some (hg_id grp))
      else None)"

definition hallwayCellEdges :: "hallway_grid \<Rightarrow> int \<Rightarrow> int \<Rightarrow> edge list" where
  "hallwayCellEdges grid x y =
     (if \<not> gridIsHallway grid x y then []
      else (if \<not> (y > 0 \<and> gridIsHallway grid x (y - 1)) then [normalizeEdge x y (x + 1) y] else [])
         @ (if \<not> (y + 1 < hgr_rows grid \<and> gridIsHallway grid x (y + 1))
            then [normalizeEdge x (y + 1) (x + 1) (y + 1)] else [])
         @ (if \<not> (x > 0 \<and> gridIsHallway grid (x - 1) y) then [normalizeEdge x y x (y + 1)] else [])
         @ (if \<not> (x + 1 < hgr_cols grid \<and> gridIsHallway grid (x + 1) y)
            then [normalizeEdge (x + 1) y (x + 1) (y + 1)] else []))"

definition buildHallwayWalls :: "bounds \<Rightarrow> cell list \<Rightarrow> edge list" where
  "buildHallwayWalls bnds hallwayCells =
     (let hallwayGrid = buildHallwayGrid bnds hallwayCells
      in mergeCollinearWalls
           (concat (map (\<lambda>y. concat (map (\<lambda>x. hallwayCellEdges hallwayGrid x y)
                                         [0 .. b_cols bnds - 1]))
                      [0 .. b_rows bnds - 1])))"

definition getHallwayIdForWall ::
  "edge \<Rightarrow> hallway_grid \<Rightarrow> (int \<Rightarrow> int \<Rightarrow> nat option) \<Rightarrow> nat option"
where
  "getHallwayIdForWall e grid ownerAt =
     (if e_y1 e = e_y2 e
      then (let y = e_y1 e;
                sampleX = max 0 ((e_x1 e + e_x2 e) div 2);
                hallwayAbove = (y - 1 \<ge> 0 \<and> gridIsHallway grid sampleX (y - 1));
                hallwayBelow = (y < hgr_rows grid \<and> gridIsHallway grid sampleX y)
            in if hallwayBelow \<and> \<not> hallwayAbove then ownerAt sampleX y
               else if hallwayAbove \<and> \<not> hallwayBelow then ownerAt sampleX (y - 1)
               else None)
      else (let x = e_x1 e;
                sampleY = max 0 ((e_y1 e + e_y2 e) div 2);
                hallwayLeft = (x - 1 \<ge> 0 \<and> gridIsHallway grid (x - 1) sampleY);
                hallwayRight = (x < hgr_cols grid \<and> gridIsHallway grid x sampleY)
            in if hallwayRight \<and> \<not> hallwayLeft then ownerAt x sampleY
               else if hallwayLeft \<and> \<not> hallwayRight then ownerAt (x - 1) sampleY
               else None))"

definition buildHallwayMetadata :: "hallway_group list \<Rightarrow> hallway_data list" where
  "buildHallwayMetadata hallwayGroups =
     map (\<lambda>grp.
            \<lparr> hd_id = hg_id grp, hd_shape = hg_shape grp,
              hd_labelX = (\<Sum>c \<leftarrow> hg_cells grp. real_of_int (fst c) + 1 / 2) / real (length (hg_cells grp)),
              hd_labelY = (\<Sum>c \<leftarrow> hg_cells grp. real_of_int (snd c) + 1 / 2) / real (length (hg_cells grp)),
              hd_cells = hg_cells grp \<rparr>)
       (filter (\<lambda>grp. length (hg_cells grp) > 0) hallwayGroups)"

definition deriveLayoutScale :: "options \<Rightarrow> bounds \<Rightarrow> real" where
  "deriveLayoutScale opts bnds =
     (let area = max 1 (b_cols bnds * b_rows bnds);
          hallways = max 1 (if opt_hallwayCount opts = 0 then 1 else opt_hallwayCount opts);
          rooms = max 1 (if opt_doorCount opts = 0 then 1 else opt_doorCount opts);
          sparsity = real_of_int area / real_of_int (hallways * rooms)
      in clampNumber (sparsity / 60) (115 / 100) (42 / 10))"

definition deriveCorridorWidthCells :: "options \<Rightarrow> bounds \<Rightarrow> int" where
  "deriveCorridorWidthCells opts bnds = 3"

section \<open>Door opening selector\<close>

text \<open>
  The first loop of \<^verbatim>\<open>chooseDoorOpenings\<close>, over \<^verbatim>\<open>hallwaysToSeed\<close>.
  \<^verbatim>\<open>candidatesByHall.get(hallway.id) ?? []\<close> is the sublist of the candidates with that
  hallway id.
\<close>

fun seedDoorPicks ::
  "wall list \<Rightarrow> nat \<Rightarrow> hallway_group list \<Rightarrow> wall list \<Rightarrow> edge list \<Rightarrow> rng
   \<Rightarrow> wall list \<times> edge list \<times> rng"
where
  "seedDoorPicks doorCandidates maxDoors [] picked pickedSet g = (picked, pickedSet, g)"
| "seedDoorPicks doorCandidates maxDoors (hallway # rest) picked pickedSet g =
     (if length picked \<ge> maxDoors then (picked, pickedSet, g)
      else (let candidates = filter (\<lambda>c. w_hallwayId c = Some (hg_id hallway)) doorCandidates
            in if candidates = [] then seedDoorPicks doorCandidates maxDoors rest picked pickedSet g
               else (let (i, g') = randomInt g 0 (int (length candidates) - 1);
                         candidate = candidates ! nat i;
                         key = w_edge candidate
                     in if key \<in> set pickedSet
                        then seedDoorPicks doorCandidates maxDoors rest picked pickedSet g'
                        else seedDoorPicks doorCandidates maxDoors rest
                               (picked @ [candidate]) (pickedSet @ [key]) g')))"

text \<open>
  The \<^verbatim>\<open>while (picked.length < maxDoors)\<close> loop: uniform picks, duplicates rejected.
  Nothing bounds the number of rejections, so the loop is a partial function
  (\<open>None\<close>: it does not return).
\<close>

partial_function (option) fillDoorPicks ::
  "wall list \<Rightarrow> nat \<Rightarrow> wall list \<Rightarrow> edge list \<Rightarrow> rng \<Rightarrow> (wall list \<times> rng) option"
where
  "fillDoorPicks doorCandidates maxDoors picked pickedSet g =
     (if length picked < maxDoors
      then (let (i, g') = randomInt g 0 (int (length doorCandidates) - 1);
                candidate = doorCandidates ! nat i;
                key = w_edge candidate
            in if key \<in> set pickedSet
               then fillDoorPicks doorCandidates maxDoors picked pickedSet g'
               else fillDoorPicks doorCandidates maxDoors
                      (picked @ [candidate]) (pickedSet @ [key]) g')
      else Some (picked, g))"

text \<open>The offset window of one opening of width \<open>width\<close> with margin \<open>minOffset\<close> on a wall of length \<open>len\<close>.\<close>

definition openingOffset :: "real \<Rightarrow> real \<Rightarrow> real \<Rightarrow> real \<Rightarrow> real" where
  "openingOffset len width minOffset r =
     (let remaining = max (2 / 10) (len - width);
          maxOffset = max minOffset (remaining - minOffset)
      in minOffset + r * (maxOffset - minOffset))"

fun doorOpeningsOfPicks :: "options \<Rightarrow> wall list \<Rightarrow> rng \<Rightarrow> wall_opening list \<times> rng" where
  "doorOpeningsOfPicks opts [] g = ([], g)"
| "doorOpeningsOfPicks opts (wl # rest) g =
     (let (r, g') = rngNext g;
          offset = openingOffset (edgeLength (w_edge wl)) (opt_doorWidth opts) (1 / 10) r;
          opn = \<lparr> o_wallKey = w_edge wl, o_hallwayId = w_hallwayId wl, o_type = Door,
                  o_start = offset, o_end = offset + opt_doorWidth opts, o_roomId = None \<rparr>;
          (more, g'') = doorOpeningsOfPicks opts rest g'
      in (opn # more, g''))"

definition doorCandidatesOf :: "options \<Rightarrow> wall list \<Rightarrow> wall list" where
  "doorCandidatesOf opts walls =
     filter (\<lambda>wl. edgeLength (w_edge wl) \<ge> opt_doorWidth opts + 8 / 10) walls"

definition maxDoorsOf :: "options \<Rightarrow> hallway_group list \<Rightarrow> wall list \<Rightarrow> nat" where
  "maxDoorsOf opts hallwayGroups doorCandidates =
     min (max (nat (opt_doorCount opts * 2)) (length hallwayGroups)) (length doorCandidates)"

text \<open>The walls \<^verbatim>\<open>chooseDoorOpenings\<close> has picked when its two loops are done.\<close>

definition pickDoorWalls ::
  "wall list \<Rightarrow> hallway_group list \<Rightarrow> options \<Rightarrow> rng \<Rightarrow> (wall list \<times> rng) option"
where
  "pickDoorWalls walls hallwayGroups opts g =
     (let doorCandidates = doorCandidatesOf opts walls
      in if doorCandidates = [] \<or> opt_doorCount opts \<le> 0 then Some ([], g)
         else (let maxDoors = maxDoorsOf opts hallwayGroups doorCandidates;
                   hallwaysToSeed = (if length hallwayGroups > maxDoors
                                     then take maxDoors hallwayGroups else hallwayGroups);
                   (picked, pickedSet, g1) =
                     seedDoorPicks doorCandidates maxDoors hallwaysToSeed [] [] g
               in fillDoorPicks doorCandidates maxDoors picked pickedSet g1))"

definition chooseDoorOpenings ::
  "wall list \<Rightarrow> hallway_group list \<Rightarrow> options \<Rightarrow> rng \<Rightarrow> (wall_opening list \<times> rng) option"
where
  "chooseDoorOpenings walls hallwayGroups opts g =
     (case pickDoorWalls walls hallwayGroups opts g of
        None \<Rightarrow> None
      | Some (picked, g2) \<Rightarrow> Some (doorOpeningsOfPicks opts picked g2))"

section \<open>Room builder\<close>

datatype side = North | South | East | West

datatype size_mode = Large | Normal | Compact

record room_rect =
  rr_x :: int
  rr_y :: int
  rr_width :: int
  rr_height :: int
  rr_side :: side

text \<open>A room record of \<^verbatim>\<open>generateRoomsFromDoors\<close> (\<^verbatim>\<open>roomRecords\<close>).\<close>

record room =
  rm_id :: nat
  rm_cells :: "cell list"
  rm_centroidX :: real
  rm_centroidY :: real
  rm_cellCount :: nat
  rm_perimeter :: int

definition classifyHallwayWallSide :: "edge \<Rightarrow> hallway_grid \<Rightarrow> side option" where
  "classifyHallwayWallSide e grid =
     (if e_y1 e = e_y2 e
      then (let y = e_y1 e;
                sampleX = max 0 ((e_x1 e + e_x2 e) div 2);
                hallwayAbove = (y - 1 \<ge> 0 \<and> gridIsHallway grid sampleX (y - 1));
                hallwayBelow = (y < hgr_rows grid \<and> gridIsHallway grid sampleX y)
            in if hallwayBelow \<and> \<not> hallwayAbove then Some North
               else if hallwayAbove \<and> \<not> hallwayBelow then Some South
               else None)
      else (let x = e_x1 e;
                sampleY = max 0 ((e_y1 e + e_y2 e) div 2);
                hallwayLeft = (x - 1 \<ge> 0 \<and> gridIsHallway grid (x - 1) sampleY);
                hallwayRight = (x < hgr_cols grid \<and> gridIsHallway grid x sampleY)
            in if hallwayRight \<and> \<not> hallwayLeft then Some West
               else if hallwayLeft \<and> \<not> hallwayRight then Some East
               else None))"

text \<open>The cells of a rectangle in the order of the two nested loops (rows outside, columns inside).\<close>

definition rectCells :: "room_rect \<Rightarrow> cell list" where
  "rectCells rect =
     concat (map (\<lambda>y. map (\<lambda>x. (x, y)) [rr_x rect .. rr_x rect + rr_width rect - 1])
               [rr_y rect .. rr_y rect + rr_height rect - 1])"

definition roomCellsOverlap :: "cell list \<Rightarrow> room_rect \<Rightarrow> bool" where
  "roomCellsOverlap occupiedCells roomRect = (\<exists>c \<in> set (rectCells roomRect). c \<in> set occupiedCells)"

definition createRoomCellKeySet :: "room_rect \<Rightarrow> cell list" where
  "createRoomCellKeySet roomRect = rectCells roomRect"

text \<open>
  \<^verbatim>\<open>buildRoomFromDoor\<close> in four steps: the frontage range, the depth range, the two draws,
  and the placement of the rectangle against the wall.
\<close>

definition scaledRoomSizeOf :: "size_mode \<Rightarrow> real \<Rightarrow> real" where
  "scaledRoomSizeOf mode roomSizeScale =
     (if mode = Large then roomSizeScale * (155 / 100)
      else if mode = Compact then max 1 (roomSizeScale * (75 / 100))
      else roomSizeScale * (13 / 10))"

definition frontageRange :: "wall_opening \<Rightarrow> size_mode \<Rightarrow> wall \<Rightarrow> real \<Rightarrow> int \<times> int" where
  "frontageRange doorOpening mode hallwayWall roomSizeScale =
     (let compactMode = (mode = Compact);
          wallLengthCells = max 1 \<lfloor>edgeLength (w_edge hallwayWall)\<rfloor>;
          scaledRoomSize = scaledRoomSizeOf mode roomSizeScale;
          doorSpan = real_of_int \<lceil>o_end doorOpening - o_start doorOpening\<rceil>;
          minFrontage = (if compactMode then max 4 (round ((doorSpan + 2) * scaledRoomSize))
                         else max 6 (round ((doorSpan + 5) * scaledRoomSize)));
          maxFrontage = (if compactMode
                         then max minFrontage (min (round (12 * scaledRoomSize)) wallLengthCells)
                         else max minFrontage (min (round (30 * scaledRoomSize)) wallLengthCells))
      in (minFrontage, maxFrontage))"

definition depthRange :: "size_mode \<Rightarrow> bounds \<Rightarrow> real \<Rightarrow> int \<times> int" where
  "depthRange mode bnds roomSizeScale =
     (let compactMode = (mode = Compact);
          scaledRoomSize = scaledRoomSizeOf mode roomSizeScale;
          maxDepthByBounds =
            max 10 \<lfloor>real_of_int (min (b_cols bnds) (b_rows bnds)) * (8 / 10)\<rfloor>;
          minDepth = (if compactMode then 5 else max 9 (round (8 * scaledRoomSize)));
          maxDepth = (if compactMode then min (round (12 * scaledRoomSize)) maxDepthByBounds
                      else min (round (30 * scaledRoomSize)) maxDepthByBounds)
      in (minDepth, maxDepth))"

definition positionRoom ::
  "wall_opening \<Rightarrow> wall \<Rightarrow> side \<Rightarrow> bounds \<Rightarrow> int \<Rightarrow> int \<Rightarrow> room_rect option"
where
  "positionRoom doorOpening hallwayWall hallwaySide bnds frontage depth =
     (let e = w_edge hallwayWall;
          doorCenter = (o_start doorOpening + o_end doorOpening) / 2
      in if e_y1 e = e_y2 e
         then (let wallY = e_y1 e;
                   doorCenterX = real_of_int (e_x1 e) + doorCenter;
                   wallMin = min (e_x1 e) (e_x2 e);
                   wallMax = max (e_x1 e) (e_x2 e);
                   x = round (doorCenterX - real_of_int frontage / 2);
                   minX = max 0 wallMin;
                   maxX = min (b_cols bnds - frontage) (wallMax - frontage)
               in if maxX < minX then None
                  else (let clampedX = max minX (min maxX x)
                        in if hallwaySide = North
                           then (let y = wallY - depth
                                 in if y < 0 then None
                                    else Some \<lparr> rr_x = clampedX, rr_y = y, rr_width = frontage,
                                           rr_height = depth, rr_side = North \<rparr>)
                           else (let y = wallY
                                 in if y + depth > b_rows bnds then None
                                    else Some \<lparr> rr_x = clampedX, rr_y = y, rr_width = frontage,
                                           rr_height = depth, rr_side = South \<rparr>)))
         else (let wallX = e_x1 e;
                   doorCenterY = real_of_int (e_y1 e) + doorCenter;
                   wallMin = min (e_y1 e) (e_y2 e);
                   wallMax = max (e_y1 e) (e_y2 e);
                   y = round (doorCenterY - real_of_int frontage / 2);
                   minY = max 0 wallMin;
                   maxY = min (b_rows bnds - frontage) (wallMax - frontage)
               in if maxY < minY then None
                  else (let clampedY = max minY (min maxY y)
                        in if hallwaySide = West
                           then (let x = wallX - depth
                                 in if x < 0 then None
                                    else Some \<lparr> rr_x = x, rr_y = clampedY, rr_width = depth,
                                           rr_height = frontage, rr_side = West \<rparr>)
                           else (let x = wallX
                                 in if x + depth > b_cols bnds then None
                                    else Some \<lparr> rr_x = x, rr_y = clampedY, rr_width = depth,
                                           rr_height = frontage, rr_side = East \<rparr>))))"

definition buildRoomFromDoor ::
  "wall_opening \<Rightarrow> size_mode \<Rightarrow> wall \<Rightarrow> side \<Rightarrow> bounds \<Rightarrow> rng \<Rightarrow> real \<Rightarrow> room_rect option \<times> rng"
where
  "buildRoomFromDoor doorOpening mode hallwayWall hallwaySide bnds g roomSizeScale =
     (let (minFrontage, maxFrontage) = frontageRange doorOpening mode hallwayWall roomSizeScale
      in if maxFrontage < minFrontage then (None, g)
         else (let (frontage, g1) = randomInt g minFrontage maxFrontage;
                   (minDepth, maxDepth) = depthRange mode bnds roomSizeScale
               in if maxDepth < minDepth then (None, g1)
                  else (let (depth, g2) = randomInt g1 minDepth maxDepth
                        in (positionRoom doorOpening hallwayWall hallwaySide bnds frontage depth, g2))))"

definition countOrthogonalRoomNeighbors :: "cell list \<Rightarrow> int \<Rightarrow> int \<Rightarrow> int" where
  "countOrthogonalRoomNeighbors roomCells x y =
     (if (x, y - 1) \<in> set roomCells then 1 else 0)
     + (if (x + 1, y) \<in> set roomCells then 1 else 0)
     + (if (x, y + 1) \<in> set roomCells then 1 else 0)
     + (if (x - 1, y) \<in> set roomCells then 1 else 0)"

definition countDiagonalRoomNeighbors :: "cell list \<Rightarrow> int \<Rightarrow> int \<Rightarrow> int" where
  "countDiagonalRoomNeighbors roomCells x y =
     (if (x - 1, y - 1) \<in> set roomCells then 1 else 0)
     + (if (x + 1, y - 1) \<in> set roomCells then 1 else 0)
     + (if (x + 1, y + 1) \<in> set roomCells then 1 else 0)
     + (if (x - 1, y + 1) \<in> set roomCells then 1 else 0)"

definition computeRoomPerimeterFromCells :: "cell list \<Rightarrow> int" where
  "computeRoomPerimeterFromCells roomCells =
     (\<Sum>(x, y) \<leftarrow> roomCells. 4 - countOrthogonalRoomNeighbors roomCells x y)"

text \<open>The state that the closure \<^verbatim>\<open>tryPlaceRoomForDoor\<close> mutates, and the generator it draws from.\<close>

record place_state =
  ps_occupiedCells :: "cell list"
  ps_roomRecords :: "room list"
  ps_roomIdByCell :: "(cell \<times> nat) list"
  ps_connectedDoors :: "wall_opening list"
  ps_connectedDoorKeys :: "edge list"
  ps_rng :: rng

text \<open>The loop over the size modes: the first candidate that exists and overlaps nothing.\<close>

fun firstFittingRect ::
  "wall_opening \<Rightarrow> wall \<Rightarrow> side \<Rightarrow> bounds \<Rightarrow> real \<Rightarrow> cell list \<Rightarrow> size_mode list \<Rightarrow> rng
   \<Rightarrow> room_rect option \<times> rng"
where
  "firstFittingRect opn hallwayWall hallwaySide bnds roomSizeScale occupiedCells [] g = (None, g)"
| "firstFittingRect opn hallwayWall hallwaySide bnds roomSizeScale occupiedCells (mode # modes) g =
     (case buildRoomFromDoor opn mode hallwayWall hallwaySide bnds g roomSizeScale of
        (None, g') \<Rightarrow>
          firstFittingRect opn hallwayWall hallwaySide bnds roomSizeScale occupiedCells modes g'
      | (Some candidate, g') \<Rightarrow>
          if roomCellsOverlap occupiedCells candidate
          then firstFittingRect opn hallwayWall hallwaySide bnds roomSizeScale occupiedCells modes g'
          else (Some candidate, g'))"

text \<open>\<^verbatim>\<open>new Map(hallwayWalls.map(...)).get(key)\<close>: the last wall with that key.\<close>

definition wallByKey :: "wall list \<Rightarrow> edge \<Rightarrow> wall option" where
  "wallByKey hallwayWalls key = find (\<lambda>wl. w_edge wl = key) (rev hallwayWalls)"

text \<open>The tail of \<^verbatim>\<open>tryPlaceRoomForDoor\<close> once a rectangle fits: the room is recorded.\<close>

definition recordRoom :: "place_state \<Rightarrow> wall_opening \<Rightarrow> room_rect \<Rightarrow> rng \<Rightarrow> place_state" where
  "recordRoom st opn roomRect g' =
     (let roomId = length (ps_roomRecords st) + 1;
          roomCells = createRoomCellKeySet roomRect
      in st\<lparr> ps_occupiedCells := foldl setAdd (ps_occupiedCells st) roomCells,
             ps_roomIdByCell :=
               foldl (\<lambda>m key. AList.update key roomId m) (ps_roomIdByCell st) roomCells,
             ps_roomRecords := ps_roomRecords st @
               [\<lparr> rm_id = roomId, rm_cells = roomCells,
                  rm_centroidX = real_of_int (rr_x roomRect) + real_of_int (rr_width roomRect) / 2,
                  rm_centroidY = real_of_int (rr_y roomRect) + real_of_int (rr_height roomRect) / 2,
                  rm_cellCount = length roomCells,
                  rm_perimeter = computeRoomPerimeterFromCells roomCells \<rparr>],
             ps_connectedDoors := ps_connectedDoors st @ [opn],
             ps_connectedDoorKeys := setAdd (ps_connectedDoorKeys st) (o_wallKey opn),
             ps_rng := g' \<rparr>)"

definition tryPlaceRoomForDoor ::
  "wall list \<Rightarrow> hallway_grid \<Rightarrow> bounds \<Rightarrow> real \<Rightarrow> nat \<Rightarrow> wall_opening \<Rightarrow> place_state
   \<Rightarrow> bool \<times> place_state"
where
  "tryPlaceRoomForDoor hallwayWalls hallwayGrid bnds roomSizeScale doorOpeningCount opn st =
     (case wallByKey hallwayWalls (o_wallKey opn) of
        None \<Rightarrow> (False, st)
      | Some hallwayWall \<Rightarrow>
          (case classifyHallwayWallSide (w_edge hallwayWall) hallwayGrid of
             None \<Rightarrow> (False, st)
           | Some hallwaySide \<Rightarrow>
               (let preferLargeRooms = (roomSizeScale \<ge> 12 / 10 \<or> doorOpeningCount \<le> 10);
                    attempts = (if preferLargeRooms then [Large, Normal, Compact]
                                else [Normal, Compact])
                in case firstFittingRect opn hallwayWall hallwaySide bnds roomSizeScale
                          (ps_occupiedCells st) attempts (ps_rng st) of
                     (None, g') \<Rightarrow> (False, st\<lparr> ps_rng := g' \<rparr>)
                   | (Some roomRect, g') \<Rightarrow> (True, recordRoom st opn roomRect g'))))"

text \<open>The Fisher-Yates shuffle used three times in the source; \<open>index\<close> counts down to 1.\<close>

fun shuffleFrom :: "nat \<Rightarrow> 'a list \<Rightarrow> rng \<Rightarrow> 'a list \<times> rng" where
  "shuffleFrom 0 xs g = (xs, g)"
| "shuffleFrom (Suc k) xs g =
     (let (j, g') = randomInt g 0 (int (Suc k));
          swapIndex = nat j
      in shuffleFrom k (xs[Suc k := xs ! swapIndex, swapIndex := xs ! Suc k]) g')"

definition shuffle :: "'a list \<Rightarrow> rng \<Rightarrow> 'a list \<times> rng" where
  "shuffle xs g = shuffleFrom (length xs - 1) xs g"

text \<open>The backfill loop body for one hallway: the first shuffled opening that gets a room.\<close>

fun placeFirst ::
  "(wall_opening \<Rightarrow> place_state \<Rightarrow> bool \<times> place_state) \<Rightarrow> wall_opening list \<Rightarrow> place_state
   \<Rightarrow> bool \<times> place_state"
where
  "placeFirst tryPlace [] st = (False, st)"
| "placeFirst tryPlace (opn # rest) st =
     (if o_wallKey opn \<in> set (ps_connectedDoorKeys st) then placeFirst tryPlace rest st
      else (case tryPlace opn st of
              (True, st') \<Rightarrow> (True, st')
            | (False, st') \<Rightarrow> placeFirst tryPlace rest st'))"

fun backfillHallways ::
  "(wall_opening \<Rightarrow> place_state \<Rightarrow> bool \<times> place_state) \<Rightarrow> (nat \<times> wall_opening list) list
   \<Rightarrow> nat list \<Rightarrow> place_state \<Rightarrow> place_state"
where
  "backfillHallways tryPlace [] connectedHallways st = st"
| "backfillHallways tryPlace ((hallId, openings) # rest) connectedHallways st =
     (if hallId \<in> set connectedHallways then backfillHallways tryPlace rest connectedHallways st
      else (let (shuffled, g') = shuffle openings (ps_rng st)
            in case placeFirst tryPlace shuffled (st\<lparr> ps_rng := g' \<rparr>) of
                 (True, st') \<Rightarrow>
                   backfillHallways tryPlace rest (setAdd connectedHallways hallId) st'
               | (False, st') \<Rightarrow> backfillHallways tryPlace rest connectedHallways st'))"

text \<open>The placement part of \<^verbatim>\<open>generateRoomsFromDoors\<close>: the first pass and the backfill.\<close>

definition placeRooms ::
  "wall_opening list \<Rightarrow> wall list \<Rightarrow> hallway_grid \<Rightarrow> cell list \<Rightarrow> bounds \<Rightarrow> rng \<Rightarrow> real
   \<Rightarrow> place_state"
where
  "placeRooms doorOpenings hallwayWalls hallwayGrid hallwayCells bnds g roomSizeScale =
     (let tryPlace = tryPlaceRoomForDoor hallwayWalls hallwayGrid bnds roomSizeScale
                       (length doorOpenings);
          st0 = \<lparr> ps_occupiedCells = hallwayCells, ps_roomRecords = [],
                  ps_roomIdByCell = [], ps_connectedDoors = [], ps_connectedDoorKeys = [],
                  ps_rng = g \<rparr>;
          st1 = foldl (\<lambda>st opn. snd (tryPlace opn st)) st0 doorOpenings;
          connectedHallways =
            remdups (List.map_filter o_hallwayId (ps_connectedDoors st1));
          openingsByHall =
            groupByKey fst (List.map_filter
              (\<lambda>opn. case o_hallwayId opn of None \<Rightarrow> None | Some h \<Rightarrow> Some (h, opn)) doorOpenings)
      in backfillHallways tryPlace (map (\<lambda>(h, xs). (h, map snd xs)) openingsByHall)
           connectedHallways st1)"

section \<open>Organic growth engine\<close>

definition neighbors4 :: "cell \<Rightarrow> cell list" where
  "neighbors4 c = (case c of (x, y) \<Rightarrow> [(x, y - 1), (x + 1, y), (x, y + 1), (x - 1, y)])"

definition hasStrongGrowthSupport :: "room \<Rightarrow> int \<Rightarrow> int \<Rightarrow> bool" where
  "hasStrongGrowthSupport rm x y =
     (let orthCount = countOrthogonalRoomNeighbors (rm_cells rm) x y
      in if orthCount \<ge> 2 then True
         else if orthCount = 0 then False
         else (let diagonalCount = countDiagonalRoomNeighbors (rm_cells rm) x y
               in if diagonalCount < 1 then False
                  else (\<exists>anchor \<in> set (neighbors4 (x, y)).
                          anchor \<in> set (rm_cells rm)
                          \<and> countOrthogonalRoomNeighbors (rm_cells rm) (fst anchor) (snd anchor) \<ge> 2)))"

definition maxPerimeterAreaRatioForRoom :: "int \<Rightarrow> real" where
  "maxPerimeterAreaRatioForRoom area =
     (if area < 20 then 32 / 10
      else if area < 40 then 28 / 10
      else if area < 80 then 255 / 100
      else 235 / 100)"

text \<open>\<^verbatim>\<open>normalizeShapeStyle\<close> on a finite number.\<close>

definition normalizeShapeStyle :: "real \<Rightarrow> real" where
  "normalizeShapeStyle styleValue = clampNumber (styleValue / 100) 0 1"

definition scoreCandidate :: "room \<Rightarrow> real \<Rightarrow> cell \<Rightarrow> real" where
  "scoreCandidate rm shapeStyle candidate =
     (let orth = real_of_int (countOrthogonalRoomNeighbors (rm_cells rm) (fst candidate) (snd candidate));
          diag = real_of_int (countDiagonalRoomNeighbors (rm_cells rm) (fst candidate) (snd candidate));
          dx = real_of_int (fst candidate) + 1 / 2 - rm_centroidX rm;
          dy = real_of_int (snd candidate) + 1 / 2 - rm_centroidY rm;
          distance = sqrt (dx\<^sup>2 + dy\<^sup>2);
          compactScore = orth * 3 + diag * (14 / 10) - distance * (45 / 100);
          organicScore = orth * (16 / 10) + diag * (8 / 10) + distance * (35 / 100)
      in compactScore * (1 - shapeStyle) + organicScore * shapeStyle)"

text \<open>The full scan of \<^verbatim>\<open>pickGrowthCandidate\<close> from index 1: the first candidate of the best score.\<close>

fun scanBest :: "(cell \<Rightarrow> real) \<Rightarrow> cell \<Rightarrow> real \<Rightarrow> cell list \<Rightarrow> cell" where
  "scanBest score bestCandidate bestScore [] = bestCandidate"
| "scanBest score bestCandidate bestScore (candidate # rest) =
     (if score candidate > bestScore then scanBest score candidate (score candidate) rest
      else scanBest score bestCandidate bestScore rest)"

text \<open>
  The sampling loop of \<^verbatim>\<open>pickGrowthCandidate\<close>: indices drawn until \<open>sampleSize\<close> distinct
  ones are seen. \<open>best\<close> is \<^verbatim>\<open>(bestCandidate, bestScore)\<close>, \<open>None\<close> before the first sample
  (\<^verbatim>\<open>null\<close> and \<^verbatim>\<open>-Infinity\<close>). The number of rejected draws is unbounded.
\<close>

partial_function (option) sampleBest ::
  "(cell \<Rightarrow> real) \<Rightarrow> cell list \<Rightarrow> nat \<Rightarrow> nat list \<Rightarrow> (cell \<times> real) option \<Rightarrow> rng
   \<Rightarrow> ((cell \<times> real) option \<times> rng) option"
where
  "sampleBest score candidates sampleSize sampledIndices best g =
     (if length sampledIndices < sampleSize
      then (let (i, g') = randomInt g 0 (int (length candidates) - 1);
                pickIndex = nat i
            in if pickIndex \<in> set sampledIndices
               then sampleBest score candidates sampleSize sampledIndices best g'
               else (let candidate = candidates ! pickIndex;
                         sc = score candidate;
                         best' = (case best of
                                    None \<Rightarrow> Some (candidate, sc)
                                  | Some (b, bs) \<Rightarrow> if sc > bs then Some (candidate, sc) else best)
                     in sampleBest score candidates sampleSize (sampledIndices @ [pickIndex]) best' g'))
      else Some (best, g))"

definition pickGrowthCandidate ::
  "room \<Rightarrow> cell list \<Rightarrow> rng \<Rightarrow> real \<Rightarrow> (cell option \<times> rng) option"
where
  "pickGrowthCandidate rm candidates g shapeStyle =
     (case candidates of
        [] \<Rightarrow> Some (None, g)
      | first # others \<Rightarrow>
          (let score = scoreCandidate rm shapeStyle;
               sampleSize = min (int (length candidates)) (max 8 (round (12 + shapeStyle * 16)))
           in if sampleSize \<ge> int (length candidates)
              then Some (Some (scanBest score first (score first) others), g)
              else (case sampleBest score candidates (nat sampleSize) [] None g of
                      None \<Rightarrow> None
                    | Some (None, g') \<Rightarrow> Some (Some first, g')
                    | Some (Some (b, bs), g') \<Rightarrow> Some (Some b, g'))))"

definition isCellClaimableByRoom ::
  "int \<Rightarrow> int \<Rightarrow> nat \<Rightarrow> (cell \<times> nat) list \<Rightarrow> cell list \<Rightarrow> bounds \<Rightarrow> bool"
where
  "isCellClaimableByRoom x y roomId roomIdByCell hallwayCells bnds =
     (if x < 0 \<or> x \<ge> b_cols bnds \<or> y < 0 \<or> y \<ge> b_rows bnds then False
      else if (x, y) \<in> set hallwayCells then False
      else if map_of roomIdByCell (x, y) \<noteq> None then False
      else (\<forall>neighborKey \<in> set (neighbors4 (x, y)).
              (case map_of roomIdByCell neighborKey of
                 None \<Rightarrow> True
               | Some neighborOwner \<Rightarrow> neighborOwner = roomId)))"

text \<open>The state \<^verbatim>\<open>growRoomCells\<close> mutates: the room records, the ownership map, its counter and flag.\<close>

record grow_state =
  gs_roomRecords :: "room list"
  gs_roomIdByCell :: "(cell \<times> nat) list"
  gs_claimed :: nat
  gs_rng :: rng
  gs_passProgress :: bool

text \<open>The frontier of one room: claimable 4-neighbours of its cells, each once, in discovery order.\<close>

definition growthCandidates :: "room \<Rightarrow> (cell \<times> nat) list \<Rightarrow> cell list \<Rightarrow> bounds \<Rightarrow> cell list" where
  "growthCandidates rm roomIdByCell hallwayCells bnds =
     foldl (\<lambda>candidates neighbor.
              if neighbor \<in> set candidates then candidates
              else if \<not> isCellClaimableByRoom (fst neighbor) (snd neighbor) (rm_id rm)
                        roomIdByCell hallwayCells bnds then candidates
              else candidates @ [neighbor])
       [] (concat (map neighbors4 (rm_cells rm)))"

text \<open>
  One claim after the pick (the body of the claim loop from \<^verbatim>\<open>const pickedKey\<close> on): every
  \<^verbatim>\<open>continue\<close> leaves the state as it is, the last branch claims the cell for room \<open>roomIndex\<close>.
\<close>

definition claimCell :: "cell list \<Rightarrow> bounds \<Rightarrow> real \<Rightarrow> nat \<Rightarrow> cell \<Rightarrow> grow_state \<Rightarrow> grow_state" where
  "claimCell hallwayCells bnds shapeStyle roomIndex picked st =
     (let rm = gs_roomRecords st ! roomIndex;
          px = fst picked;
          py = snd picked
      in if \<not> isCellClaimableByRoom px py (rm_id rm) (gs_roomIdByCell st) hallwayCells bnds then st
         else (let orthNeighbors = countOrthogonalRoomNeighbors (rm_cells rm) px py;
                   diagonalNeighbors = countDiagonalRoomNeighbors (rm_cells rm) px py;
                   minOrthogonalSupport = (if shapeStyle < 35 / 100 then 2 else 1 :: int)
               in if orthNeighbors < minOrthogonalSupport
                     \<or> (orthNeighbors = 1 \<and> diagonalNeighbors = 0)
                     \<or> (orthNeighbors = 1 \<and> \<not> hasStrongGrowthSupport rm px py)
                  then st
                  else (let projectedArea = int (length (rm_cells rm)) + 1;
                            projectedPerimeter = rm_perimeter rm + (4 - orthNeighbors * 2);
                            projectedRatio = real_of_int projectedPerimeter / real_of_int projectedArea;
                            ratioAllowance = shapeStyle * (3 / 10);
                            maxRatio = maxPerimeterAreaRatioForRoom projectedArea + ratioAllowance;
                            singleEdgePenalty = (if orthNeighbors = 1 then 3 / 10 else 0)
                        in if projectedRatio > maxRatio - singleEdgePenalty then st
                           else (let nextCellCount = rm_cellCount rm + 1;
                                     rm' = rm\<lparr> rm_cells := setAdd (rm_cells rm) picked,
                                               rm_centroidX :=
                                                 (rm_centroidX rm * real (rm_cellCount rm)
                                                  + real_of_int px + 1 / 2) / real nextCellCount,
                                               rm_centroidY :=
                                                 (rm_centroidY rm * real (rm_cellCount rm)
                                                  + real_of_int py + 1 / 2) / real nextCellCount,
                                               rm_cellCount := nextCellCount,
                                               rm_perimeter := projectedPerimeter \<rparr>
                                 in st\<lparr> gs_roomRecords := (gs_roomRecords st)[roomIndex := rm'],
                                        gs_roomIdByCell :=
                                          AList.update picked (rm_id rm) (gs_roomIdByCell st),
                                        gs_claimed := gs_claimed st + 1,
                                        gs_passProgress := True \<rparr>))))"

text \<open>\<^verbatim>\<open>candidates.findIndex(...)\<close>: the first index of the picked cell.\<close>

fun findIndexOf :: "'a \<Rightarrow> 'a list \<Rightarrow> nat option" where
  "findIndexOf x [] = None"
| "findIndexOf x (y # ys) =
     (if y = x then Some 0 else (case findIndexOf x ys of None \<Rightarrow> None | Some i \<Rightarrow> Some (Suc i)))"

text \<open>The claim loop of one room in one pass; \<open>n\<close> claims remain.\<close>

fun claimLoop ::
  "cell list \<Rightarrow> bounds \<Rightarrow> real \<Rightarrow> int \<Rightarrow> nat \<Rightarrow> nat \<Rightarrow> cell list \<Rightarrow> grow_state \<Rightarrow> grow_state option"
where
  "claimLoop hallwayCells bnds shapeStyle target roomIndex 0 candidates st = Some st"
| "claimLoop hallwayCells bnds shapeStyle target roomIndex (Suc n) candidates st =
     (if candidates = [] \<or> int (gs_claimed st) \<ge> target then Some st
      else (case pickGrowthCandidate (gs_roomRecords st ! roomIndex) candidates (gs_rng st) shapeStyle of
              None \<Rightarrow> None
            | Some (None, g') \<Rightarrow> Some (st\<lparr> gs_rng := g' \<rparr>)
            | Some (Some picked, g') \<Rightarrow>
                (case findIndexOf picked candidates of
                   None \<Rightarrow>
                     claimLoop hallwayCells bnds shapeStyle target roomIndex n candidates
                       (st\<lparr> gs_rng := g' \<rparr>)
                 | Some pickIndex \<Rightarrow>
                     claimLoop hallwayCells bnds shapeStyle target roomIndex n
                       (take pickIndex candidates @ drop (Suc pickIndex) candidates)
                       (claimCell hallwayCells bnds shapeStyle roomIndex picked (st\<lparr> gs_rng := g' \<rparr>)))))"

text \<open>
  The loop over the shuffled rooms of one pass. The flag is true when the loop left
  \<^verbatim>\<open>growRoomCells\<close> by its \<^verbatim>\<open>return\<close> (target reached).
\<close>

fun roomLoop ::
  "cell list \<Rightarrow> bounds \<Rightarrow> real \<Rightarrow> real \<Rightarrow> int \<Rightarrow> nat list \<Rightarrow> grow_state
   \<Rightarrow> (bool \<times> grow_state) option"
where
  "roomLoop hallwayCells bnds roomSizeScale shapeStyle target [] st = Some (False, st)"
| "roomLoop hallwayCells bnds roomSizeScale shapeStyle target (roomIndex # rest) st =
     (if int (gs_claimed st) \<ge> target then Some (True, st)
      else (let candidates = growthCandidates (gs_roomRecords st ! roomIndex) (gs_roomIdByCell st)
                               hallwayCells bnds
            in if candidates = []
               then roomLoop hallwayCells bnds roomSizeScale shapeStyle target rest st
               else (let maxClaimsThisPass =
                           min (int (length candidates))
                             (max 1 (round (roomSizeScale * (1 + shapeStyle * (9 / 10)))))
                     in case claimLoop hallwayCells bnds shapeStyle target roomIndex
                               (nat maxClaimsThisPass) candidates st of
                          None \<Rightarrow> None
                        | Some st' \<Rightarrow>
                            roomLoop hallwayCells bnds roomSizeScale shapeStyle target rest st')))"

text \<open>The pass loop; \<open>n\<close> passes remain. The shuffled order is a list of indices into the records.\<close>

fun passLoop ::
  "cell list \<Rightarrow> bounds \<Rightarrow> real \<Rightarrow> real \<Rightarrow> int \<Rightarrow> nat \<Rightarrow> grow_state \<Rightarrow> grow_state option"
where
  "passLoop hallwayCells bnds roomSizeScale shapeStyle target 0 st = Some st"
| "passLoop hallwayCells bnds roomSizeScale shapeStyle target (Suc n) st =
     (let (order, g') = shuffle [0 ..< length (gs_roomRecords st)] (gs_rng st)
      in case roomLoop hallwayCells bnds roomSizeScale shapeStyle target order
                (st\<lparr> gs_rng := g', gs_passProgress := False \<rparr>) of
           None \<Rightarrow> None
         | Some (True, st') \<Rightarrow> Some st'
         | Some (False, st') \<Rightarrow>
             if \<not> gs_passProgress st' then Some st'
             else passLoop hallwayCells bnds roomSizeScale shapeStyle target n st')"

definition growRoomCells ::
  "room list \<Rightarrow> (cell \<times> nat) list \<Rightarrow> cell list \<Rightarrow> bounds \<Rightarrow> rng \<Rightarrow> real \<Rightarrow> real
   \<Rightarrow> (room list \<times> (cell \<times> nat) list \<times> rng) option"
where
  "growRoomCells roomRecords roomIdByCell hallwayCells bnds g roomSizeScale roomShapeStyle =
     (let shapeStyle = normalizeShapeStyle roomShapeStyle;
          planArea = b_cols bnds * b_rows bnds;
          nonHallwayArea = max 1 (planArea - int (length hallwayCells));
          targetFillRatio =
            clampNumber (58 / 100 + max 0 (roomSizeScale - 1) * (1 / 10)
                         + (shapeStyle - 1 / 2) * (16 / 100)) (1 / 2) (86 / 100);
          targetRoomCellCount = \<lfloor>real_of_int nonHallwayArea * targetFillRatio\<rfloor>;
          claimedRoomCells = length roomIdByCell
      in if int claimedRoomCells \<ge> targetRoomCellCount then Some (roomRecords, roomIdByCell, g)
         else (let maxPasses =
                     min 96 (max 40 \<lceil>real_of_int targetRoomCellCount
                                      / max 1 (real (length roomRecords) * (22 / 10))\<rceil>)
               in case passLoop hallwayCells bnds roomSizeScale shapeStyle targetRoomCellCount
                         (nat maxPasses)
                         \<lparr> gs_roomRecords = roomRecords, gs_roomIdByCell = roomIdByCell,
                           gs_claimed = claimedRoomCells, gs_rng = g, gs_passProgress = False \<rparr> of
                    None \<Rightarrow> None
                  | Some st \<Rightarrow> Some (gs_roomRecords st, gs_roomIdByCell st, gs_rng st)))"

section \<open>Room output, exterior exits and windows\<close>

text \<open>
  \<^verbatim>\<open>buildRoomDataFromCells\<close>. A room record always holds at least one cell; for the empty
  list (where the source computes with \<^verbatim>\<open>Infinity\<close>) the box is left at zero.
\<close>

definition buildRoomDataFromCells :: "nat \<Rightarrow> cell list \<Rightarrow> room_data" where
  "buildRoomDataFromCells roomId roomCells =
     (let xs = map fst roomCells;
          ys = map snd roomCells;
          minX = (case xs of [] \<Rightarrow> 0 | x # r \<Rightarrow> foldl min x r);
          minY = (case ys of [] \<Rightarrow> 0 | y # r \<Rightarrow> foldl min y r);
          maxX = (case xs of [] \<Rightarrow> - 1 | x # r \<Rightarrow> foldl max x r);
          maxY = (case ys of [] \<Rightarrow> - 1 | y # r \<Rightarrow> foldl max y r);
          sumX = (\<Sum>x \<leftarrow> xs. real_of_int x + 1 / 2);
          sumY = (\<Sum>y \<leftarrow> ys. real_of_int y + 1 / 2);
          cnt = max 1 (length roomCells)
      in \<lparr> rd_id = roomId, rd_x = minX, rd_y = minY,
           rd_width = maxX - minX + 1, rd_height = maxY - minY + 1,
           rd_cells = roomCells, rd_labelX = sumX / real cnt, rd_labelY = sumY / real cnt \<rparr>)"

definition roomCellEdges :: "room \<Rightarrow> cell list \<Rightarrow> cell \<Rightarrow> (edge \<times> nat) list" where
  "roomCellEdges rm hallwayCells c =
     (case c of (x, y) \<Rightarrow>
        (if (x, y - 1) \<notin> set (rm_cells rm) \<and> (x, y - 1) \<notin> set hallwayCells
         then [(normalizeEdge x y (x + 1) y, rm_id rm)] else [])
      @ (if (x, y + 1) \<notin> set (rm_cells rm) \<and> (x, y + 1) \<notin> set hallwayCells
         then [(normalizeEdge x (y + 1) (x + 1) (y + 1), rm_id rm)] else [])
      @ (if (x - 1, y) \<notin> set (rm_cells rm) \<and> (x - 1, y) \<notin> set hallwayCells
         then [(normalizeEdge x y x (y + 1), rm_id rm)] else [])
      @ (if (x + 1, y) \<notin> set (rm_cells rm) \<and> (x + 1, y) \<notin> set hallwayCells
         then [(normalizeEdge (x + 1) y (x + 1) (y + 1), rm_id rm)] else []))"

definition buildRoomPerimeterWallsFromCells :: "room list \<Rightarrow> cell list \<Rightarrow> wall list" where
  "buildRoomPerimeterWallsFromCells roomRecords hallwayCells =
     mergeCollinearWallsWithRoomId
       (concat (map (\<lambda>rm. concat (map (roomCellEdges rm hallwayCells) (rm_cells rm))) roomRecords))"

text \<open>The pairs \<open>(i, j)\<close> with \<open>i < j\<close> in the order of the two nested loops.\<close>

fun allPairs :: "'a list \<Rightarrow> ('a \<times> 'a) list" where
  "allPairs [] = []"
| "allPairs (x # xs) = map (Pair x) xs @ allPairs xs"

text \<open>\<^verbatim>\<open>roomCenterById.get(id)\<close>: the label position of the last room with that id.\<close>

definition roomCenterById :: "room_data list \<Rightarrow> nat option \<Rightarrow> (real \<times> real) option" where
  "roomCenterById rooms key =
     (case key of
        None \<Rightarrow> None
      | Some roomId \<Rightarrow>
          (case find (\<lambda>r. rd_id r = roomId) (rev rooms) of
             None \<Rightarrow> None
           | Some r \<Rightarrow> Some (rd_labelX r, rd_labelY r)))"

definition farthestPair ::
  "room_data list \<Rightarrow> nat option list \<Rightarrow> (nat option \<times> nat option) \<times> real"
where
  "farthestPair rooms roomIds =
     foldl (\<lambda>(selectedRoomIds, bestDistance) (firstId, secondId).
              case (roomCenterById rooms firstId, roomCenterById rooms secondId) of
                (Some firstCenter, Some secondCenter) \<Rightarrow>
                  (let dx = fst firstCenter - fst secondCenter;
                       dy = snd firstCenter - snd secondCenter;
                       distSq = dx * dx + dy * dy
                   in if distSq > bestDistance then ((firstId, secondId), distSq)
                      else (selectedRoomIds, bestDistance))
              | _ \<Rightarrow> (selectedRoomIds, bestDistance))
       ((roomIds ! 0, roomIds ! 1), - 1) (allPairs roomIds)"

text \<open>\<^verbatim>\<open>while (second === first)\<close>: a second id is drawn until it differs from the first.\<close>

partial_function (option) pickSecondRoom ::
  "nat option list \<Rightarrow> nat option \<Rightarrow> nat option \<Rightarrow> rng \<Rightarrow> (nat option \<times> rng) option"
where
  "pickSecondRoom roomIds first second g =
     (if second = first
      then (let (i, g') = randomInt g 0 (int (length roomIds) - 1)
            in pickSecondRoom roomIds first (roomIds ! nat i) g')
      else Some (second, g))"

fun exitOpeningsFor ::
  "options \<Rightarrow> wall list \<Rightarrow> nat option list \<Rightarrow> rng \<Rightarrow> wall_opening list \<times> rng"
where
  "exitOpeningsFor opts candidates [] g = ([], g)"
| "exitOpeningsFor opts candidates (roomId # rest) g =
     (let roomCandidates = filter (\<lambda>c. w_roomId c = roomId) candidates
      in if roomCandidates = [] then exitOpeningsFor opts candidates rest g
         else (let (i, g1) = randomInt g 0 (int (length roomCandidates) - 1);
                   chosen = roomCandidates ! nat i;
                   (r, g2) = rngNext g1;
                   offset = openingOffset (edgeLength (w_edge chosen)) (opt_doorWidth opts) (1 / 10) r;
                   opn = \<lparr> o_wallKey = w_edge chosen, o_hallwayId = None, o_type = Door,
                           o_start = offset, o_end = offset + opt_doorWidth opts,
                           o_roomId = roomId \<rparr>;
                   (more, g3) = exitOpeningsFor opts candidates rest g2
               in (opn # more, g3)))"

definition chooseExteriorExitOpenings ::
  "wall list \<Rightarrow> room_data list \<Rightarrow> options \<Rightarrow> rng \<Rightarrow> (wall_opening list \<times> rng) option"
where
  "chooseExteriorExitOpenings roomWalls rooms opts g =
     (let candidates = filter (\<lambda>wl. edgeLength (w_edge wl) \<ge> opt_doorWidth opts + 5 / 10
                                    \<and> w_roomId wl \<noteq> None) roomWalls
      in if candidates = [] then Some ([], g)
         else (let roomIds = map fst (groupByKey w_roomId candidates)
               in if length roomIds < 2 then Some ([], g)
                  else (let (selectedRoomIds, bestDistance) = farthestPair rooms roomIds
                        in if bestDistance < 0 \<and> length roomIds > 2
                           then (let (i, g1) = randomInt g 0 (int (length roomIds) - 1);
                                     first = roomIds ! nat i
                                 in case pickSecondRoom roomIds first first g1 of
                                      None \<Rightarrow> None
                                    | Some (second, g2) \<Rightarrow>
                                        Some (exitOpeningsFor opts candidates [first, second] g2))
                           else Some (exitOpeningsFor opts candidates
                                        [fst selectedRoomIds, snd selectedRoomIds] g))))"

fun windowOpeningsFor :: "options \<Rightarrow> wall list \<Rightarrow> rng \<Rightarrow> wall_opening list \<times> rng" where
  "windowOpeningsFor opts [] g = ([], g)"
| "windowOpeningsFor opts (wl # rest) g =
     (let (r, g') = rngNext g;
          offset = openingOffset (edgeLength (w_edge wl)) (opt_windowWidth opts) (15 / 100) r;
          opn = \<lparr> o_wallKey = w_edge wl, o_hallwayId = None, o_type = Window,
                  o_start = offset, o_end = offset + opt_windowWidth opts, o_roomId = None \<rparr>;
          (more, g'') = windowOpeningsFor opts rest g'
      in (opn # more, g''))"

definition chooseWindowOpenings ::
  "wall list \<Rightarrow> wall list \<Rightarrow> wall_opening list \<Rightarrow> options \<Rightarrow> rng \<Rightarrow> wall_opening list \<times> rng"
where
  "chooseWindowOpenings roomWalls hallwayWalls doorOpenings opts g =
     (let maxWindows = max 0 (opt_maxWindowCount opts)
      in if maxWindows \<le> 0 then ([], g)
         else (let doorWallKeys = map o_wallKey doorOpenings;
                   candidates = filter (\<lambda>wl. edgeLength (w_edge wl) \<ge> opt_windowWidth opts + 8 / 10
                                            \<and> w_edge wl \<notin> set doorWallKeys)
                                  (roomWalls @ hallwayWalls)
               in if candidates = [] then ([], g)
                  else (let (shuffled, g1) = shuffle candidates g;
                            cnt = min (nat maxWindows) (length shuffled)
                        in windowOpeningsFor opts (take cnt shuffled) g1)))"

section \<open>Room generation and the adaptive scale loop\<close>

definition generateRoomsFromDoors ::
  "wall_opening list \<Rightarrow> wall list \<Rightarrow> hallway_grid \<Rightarrow> cell list \<Rightarrow> bounds \<Rightarrow> rng \<Rightarrow> real \<Rightarrow> real
   \<Rightarrow> (room_data list \<times> wall list \<times> wall_opening list \<times> rng) option"
where
  "generateRoomsFromDoors doorOpenings hallwayWalls hallwayGrid hallwayCells bnds g roomSizeScale
     roomShapeStyle =
     (let st = placeRooms doorOpenings hallwayWalls hallwayGrid hallwayCells bnds g roomSizeScale
      in case growRoomCells (ps_roomRecords st) (ps_roomIdByCell st) hallwayCells bnds (ps_rng st)
                roomSizeScale roomShapeStyle of
           None \<Rightarrow> None
         | Some (roomRecords, roomIdByCell, g') \<Rightarrow>
             Some (map (\<lambda>rm. buildRoomDataFromCells (rm_id rm) (rm_cells rm)) roomRecords,
                   buildRoomPerimeterWallsFromCells roomRecords hallwayCells,
                   ps_connectedDoors st, g'))"

record room_candidate =
  rc_rooms :: "room_data list"
  rc_roomWalls :: "wall list"
  rc_connectedDoors :: "wall_opening list"
  rc_exteriorRoomExits :: "wall_opening list"

definition betterCandidate :: "room_candidate \<Rightarrow> room_candidate option \<Rightarrow> bool" where
  "betterCandidate candidate best =
     (case best of
        None \<Rightarrow> True
      | Some b \<Rightarrow>
          length (rc_connectedDoors candidate) > length (rc_connectedDoors b)
          \<or> (length (rc_exteriorRoomExits candidate) \<ge> 2 \<and> length (rc_exteriorRoomExits b) < 2))"

definition candidateSucceeds :: "options \<Rightarrow> room_candidate \<Rightarrow> bool" where
  "candidateSucceeds opts candidate =
     (int (length (rc_connectedDoors candidate)) = opt_doorCount opts
      \<and> length (rc_exteriorRoomExits candidate) \<ge> 2)"


text \<open>
  The loop of \<^verbatim>\<open>generateRoomsWithAdaptiveScale\<close> over the indices of \<^verbatim>\<open>scaleCandidates\<close>.
  \<open>variant index\<close> is the candidate built at that index (\<open>None\<close>: it does not return).
  The result is \<open>(returned early, best)\<close>.
\<close>

fun adaptiveLoop ::
  "(nat \<Rightarrow> room_candidate option) \<Rightarrow> options \<Rightarrow> nat list \<Rightarrow> room_candidate option
   \<Rightarrow> room_candidate option option"
where
  "adaptiveLoop variant opts [] best = Some best"
| "adaptiveLoop variant opts (index # rest) best =
     (case variant index of
        None \<Rightarrow> None
      | Some candidate \<Rightarrow>
          (let best1 = (if betterCandidate candidate best then Some candidate else best)
           in if candidateSucceeds opts candidate then Some (Some candidate)
              else adaptiveLoop variant opts rest best1))"

definition emptyCandidate :: room_candidate where
  "emptyCandidate =
     \<lparr> rc_rooms = [], rc_roomWalls = [], rc_connectedDoors = [], rc_exteriorRoomExits = [] \<rparr>"

text \<open>The body of the loop up to \<^verbatim>\<open>const candidate = { ... }\<close>.\<close>

definition scaleVariant ::
  "wall_opening list \<Rightarrow> wall list \<Rightarrow> hallway_grid \<Rightarrow> cell list \<Rightarrow> bounds \<Rightarrow> options \<Rightarrow> real
   \<Rightarrow> real \<Rightarrow> int \<Rightarrow> nat \<Rightarrow> room_candidate option"
where
  "scaleVariant initialDoorOpenings hallwayWalls hallwayGrid hallwayCells bnds opts
     baseRoomSizeScale roomShapeStyle attemptSeed index =
     (let scaleCandidates = [baseRoomSizeScale, baseRoomSizeScale * (9 / 10),
                             baseRoomSizeScale * (8 / 10), max 1 (baseRoomSizeScale * (7 / 10))];
          roomSizeScale = max 1 (scaleCandidates ! index);
          variantRng = createRng (attemptSeed + (int index + 1) * 3571)
      in case generateRoomsFromDoors initialDoorOpenings hallwayWalls hallwayGrid hallwayCells bnds
                variantRng roomSizeScale roomShapeStyle of
           None \<Rightarrow> None
         | Some (rooms, roomWalls, connectedDoors, g1) \<Rightarrow>
             (case chooseExteriorExitOpenings roomWalls rooms opts g1 of
                None \<Rightarrow> None
              | Some (exteriorRoomExits, g2) \<Rightarrow>
                  Some \<lparr> rc_rooms = rooms, rc_roomWalls = roomWalls,
                         rc_connectedDoors = connectedDoors,
                         rc_exteriorRoomExits = exteriorRoomExits \<rparr>))"

definition generateRoomsWithAdaptiveScaleFrom ::
  "(nat \<Rightarrow> room_candidate option) \<Rightarrow> options \<Rightarrow> room_candidate option"
where
  "generateRoomsWithAdaptiveScaleFrom variant opts =
     (case adaptiveLoop variant opts [0, 1, 2, 3] None of
        None \<Rightarrow> None
      | Some None \<Rightarrow> Some emptyCandidate
      | Some (Some best) \<Rightarrow> Some best)"

definition generateRoomsWithAdaptiveScale ::
  "wall_opening list \<Rightarrow> wall list \<Rightarrow> hallway_grid \<Rightarrow> cell list \<Rightarrow> bounds \<Rightarrow> options \<Rightarrow> real
   \<Rightarrow> real \<Rightarrow> int \<Rightarrow> room_candidate option"
where
  "generateRoomsWithAdaptiveScale initialDoorOpenings hallwayWalls hallwayGrid hallwayCells bnds opts
     baseRoomSizeScale roomShapeStyle attemptSeed =
     generateRoomsWithAdaptiveScaleFrom
       (scaleVariant initialDoorOpenings hallwayWalls hallwayGrid hallwayCells bnds opts
          baseRoomSizeScale roomShapeStyle attemptSeed) opts"

section \<open>One plan attempt\<close>

text \<open>The hallway walls of an attempt, each with the id of its hallway group.\<close>

definition hallwayWallsOf :: "bounds \<Rightarrow> cell list \<Rightarrow> hallway_group list \<Rightarrow> wall list" where
  "hallwayWallsOf bnds hallwayCells hallwayGroups =
     map (\<lambda>e. \<lparr> w_edge = e,
                 w_hallwayId = getHallwayIdForWall e (buildHallwayGrid bnds hallwayCells)
                                 (hallwayOwnerAt bnds hallwayGroups),
                 w_roomId = None \<rparr>)
       (buildHallwayWalls bnds hallwayCells)"

definition generatePlanAttempt :: "options \<Rightarrow> bounds \<Rightarrow> int \<Rightarrow> attempt option" where
  "generatePlanAttempt opts bnds seed =
     (let g0 = createRng seed;
          corridorWidthCells = deriveCorridorWidthCells opts bnds;
          roomSizeScale = deriveLayoutScale opts bnds;
          (hallwayCells, hallwayGroups, g1) =
            buildHallwayGroups bnds (opt_hallwayCount opts) corridorWidthCells g0;
          hallwayGrid = buildHallwayGrid bnds hallwayCells;
          hallwayWalls = hallwayWallsOf bnds hallwayCells hallwayGroups
      in case chooseDoorOpenings hallwayWalls hallwayGroups opts g1 of
           None \<Rightarrow> None
         | Some (initialDoorOpenings, g2) \<Rightarrow>
             (case generateRoomsWithAdaptiveScale initialDoorOpenings hallwayWalls hallwayGrid
                     hallwayCells bnds opts roomSizeScale (real_of_int (opt_roomShapeStyle opts)) seed of
                None \<Rightarrow> None
              | Some cand \<Rightarrow>
                  (let (windowOpenings, g3) =
                         chooseWindowOpenings (rc_roomWalls cand) hallwayWalls
                           (rc_connectedDoors cand @ rc_exteriorRoomExits cand) opts g2;
                       allOpenings = rc_connectedDoors cand @ rc_exteriorRoomExits cand @ windowOpenings;
                       allWalls = hallwayWalls @ rc_roomWalls cand
                   in Some \<lparr> a_rooms = rc_rooms cand,
                             a_hallways = buildHallwayMetadata hallwayGroups,
                             a_walls = compileWalls allWalls allOpenings,
                             a_openings = compileOpenings allWalls allOpenings,
                             a_connectedDoors = rc_connectedDoors cand,
                             a_hasExteriorExit = (length (rc_exteriorRoomExits cand) \<ge> 2) \<rparr>)))"

section \<open>The attempt loop and the strict-mode gate\<close>

text \<open>\<^verbatim>\<open>Number(v) || d\<close>: the default replaces an absent, non-numeric or zero field.\<close>

definition numberOr :: "real option \<Rightarrow> real \<Rightarrow> real" where
  "numberOr v d = (case v of None \<Rightarrow> d | Some x \<Rightarrow> if x = 0 then d else x)"

text \<open>
  \<^verbatim>\<open>DEFAULT_OPTIONS.seed\<close> is \<^verbatim>\<open>Date.now()\<close> at module load: the parameter
  \<open>loadTime\<close>. It is read only when the caller passes no seed.
\<close>

definition normalizeOptions :: "int \<Rightarrow> user_options \<Rightarrow> options" where
  "normalizeOptions loadTime u =
     \<lparr> opt_width = clampNumber (numberOr (u_width u) 36) 12 100,
       opt_height = clampNumber (numberOr (u_height u) 24) 12 100,
       opt_hallwayCount = round (clampNumber (numberOr (u_hallwayCount u) 1) 1 12),
       opt_doorCount = round (clampNumber (numberOr (u_doorCount u) 0) 0 40),
       opt_roomShapeStyle = round (clampNumber (numberOr (u_roomShapeStyle u) 45) 0 100),
       opt_doorWidth = clampNumber (numberOr (u_doorWidth u) (12 / 10)) (8 / 10) (25 / 10),
       opt_windowWidth = clampNumber (numberOr (u_windowWidth u) (16 / 10)) (8 / 10) (28 / 10),
       opt_maxWindowCount = round (clampNumber (numberOr (u_maxWindowCount u) 0) 0 40),
       opt_seed = (case u_seed u of None \<Rightarrow> loadTime | Some s \<Rightarrow> s) \<rparr>"

definition flagSet :: "bool option \<Rightarrow> bool" where
  "flagSet f = (f \<noteq> Some False)"

definition planBounds :: "options \<Rightarrow> bounds" where
  "planBounds opts =
     \<lparr> b_cols = max 12 (round (opt_width opts / 1)),
       b_rows = max 12 (round (opt_height opts / 1)) \<rparr>"

definition betterAttempt :: "attempt \<Rightarrow> attempt option \<Rightarrow> bool" where
  "betterAttempt att best =
     (case best of
        None \<Rightarrow> True
      | Some b \<Rightarrow>
          length (a_connectedDoors att) > length (a_connectedDoors b)
          \<or> (a_hasExteriorExit att \<and> \<not> a_hasExteriorExit b))"

definition attemptSucceeds :: "options \<Rightarrow> attempt \<Rightarrow> bool" where
  "attemptSucceeds opts att =
     (int (length (a_connectedDoors att)) = opt_doorCount opts \<and> a_hasExteriorExit att)"

text \<open>
  The \<^verbatim>\<open>for (attemptIndex ...)\<close> loop of \<^verbatim>\<open>generateFloorPlan\<close>: \<open>n\<close> iterations
  remain, \<open>attemptIndex\<close> is the next index. \<open>gen\<close> is
  \<^verbatim>\<open>generatePlanAttempt(options, bounds, \<cdot>)\<close>; it yields \<open>None\<close> when the attempt does
  not return.
\<close>

fun attemptLoop ::
  "(int \<Rightarrow> attempt option) \<Rightarrow> options \<Rightarrow> nat \<Rightarrow> int \<Rightarrow> attempt option \<Rightarrow> attempt option option"
where
  "attemptLoop gen opts 0 attemptIndex bestAttempt = Some bestAttempt"
| "attemptLoop gen opts (Suc n) attemptIndex bestAttempt =
     (case gen (opt_seed opts + attemptIndex * 7919) of
        None \<Rightarrow> None
      | Some att \<Rightarrow>
          (let best1 = (if betterAttempt att bestAttempt then Some att else bestAttempt)
           in if attemptSucceeds opts att then Some (Some att)
              else attemptLoop gen opts n (attemptIndex + 1) best1))"

definition planOfAttempt :: "options \<Rightarrow> attempt \<Rightarrow> plan" where
  "planOfAttempt opts best =
     \<lparr> p_meta =
         \<lparr> m_width = opt_width opts,
           m_height = opt_height opts,
           m_seed = opt_seed opts,
           m_roomCount = length (a_rooms best),
           m_hallwayCount = length (a_hallways best),
           m_requestedDoorCount = opt_doorCount opts,
           m_placedDoorCount = length (a_connectedDoors best),
           m_hasExteriorExit = a_hasExteriorExit best,
           m_windowCount = length (filter (\<lambda>g. s_type g = Window) (a_openings best)),
           m_wallCount = length (a_walls best) \<rparr>,
       p_rooms = a_rooms best,
       p_hallways = a_hallways best,
       p_walls = a_walls best,
       p_openings = a_openings best \<rparr>"

text \<open>The three checks after the loop, in the order of the source.\<close>

definition finishPlan :: "options \<Rightarrow> bool \<Rightarrow> bool \<Rightarrow> attempt option \<Rightarrow> gen_error + plan" where
  "finishPlan opts strictDoorCount requireExteriorExits bestAttempt =
     (case bestAttempt of
        None \<Rightarrow> Inl NoHallwayLayout
      | Some best \<Rightarrow>
          if strictDoorCount \<and> int (length (a_connectedDoors best)) \<noteq> opt_doorCount opts
          then Inl (DoorCountUnmet (opt_doorCount opts))
          else if requireExteriorExits \<and> \<not> a_hasExteriorExit best
          then Inl ExteriorExitUnmet
          else Inr (planOfAttempt opts best))"

text \<open>
  The body of \<^verbatim>\<open>generateFloorPlan\<close> over the attempt function \<open>gen\<close>; the source calls
  it with \<^verbatim>\<open>generatePlanAttempt\<close> (\<open>generateFloorPlan\<close> below). The result is \<open>None\<close>
  when an attempt does not return, \<open>Some (Inl e)\<close> when the call throws.
\<close>

definition generateFloorPlanWith ::
  "(options \<Rightarrow> bounds \<Rightarrow> int \<Rightarrow> attempt option) \<Rightarrow> int \<Rightarrow> user_options
   \<Rightarrow> (gen_error + plan) option"
where
  "generateFloorPlanWith gen loadTime userOptions =
     (let opts = normalizeOptions loadTime userOptions;
          strictDoorCount = flagSet (u_strictDoorCount userOptions);
          requireExteriorExits = flagSet (u_requireExteriorExits userOptions);
          bnds = planBounds opts;
          maxAttempts = (if strictDoorCount \<or> requireExteriorExits then 48 else 12 :: nat)
      in case attemptLoop (gen opts bnds) opts maxAttempts 0 None of
           None \<Rightarrow> None
         | Some bestAttempt \<Rightarrow>
             Some (finishPlan opts strictDoorCount requireExteriorExits bestAttempt))"

definition generateFloorPlan :: "int \<Rightarrow> user_options \<Rightarrow> (gen_error + plan) option" where
  "generateFloorPlan loadTime userOptions =
     generateFloorPlanWith generatePlanAttempt loadTime userOptions"

section \<open>Sample inputs\<close>

definition strictScenario :: user_options where
  "strictScenario =
     \<lparr> u_width = Some 36, u_height = Some 24, u_hallwayCount = Some 1, u_doorCount = Some 6,
       u_roomShapeStyle = None, u_doorWidth = None, u_windowWidth = None,
       u_maxWindowCount = None, u_seed = Some 1,
       u_strictDoorCount = Some True, u_requireExteriorExits = Some True \<rparr>"

definition sampleDoor :: wall_opening where
  "sampleDoor =
     \<lparr> o_wallKey = \<lparr> e_x1 = 0, e_y1 = 0, e_x2 = 4, e_y2 = 0 \<rparr>, o_hallwayId = Some 1,
       o_type = Door, o_start = 1, o_end = 11 / 5, o_roomId = None \<rparr>"

definition sampleAttempt :: "nat \<Rightarrow> bool \<Rightarrow> attempt" where
  "sampleAttempt doors exits =
     \<lparr> a_rooms = [], a_hallways = [], a_walls = [], a_openings = [],
       a_connectedDoors = replicate doors sampleDoor, a_hasExteriorExit = exits \<rparr>"







text \<open>The caller of \<^verbatim>\<open>index.js\<close>: both flags off, no doors requested, no windows.\<close>

definition noDoorScenario :: user_options where
  "noDoorScenario =
     \<lparr> u_width = Some 36, u_height = Some 24, u_hallwayCount = Some 1, u_doorCount = Some 0,
       u_roomShapeStyle = None, u_doorWidth = None, u_windowWidth = None,
       u_maxWindowCount = Some 0, u_seed = Some 1,
       u_strictDoorCount = Some False, u_requireExteriorExits = Some False \<rparr>"


text \<open>The same without the two flags: both are then set (\<^verbatim>\<open>!== false\<close>).\<close>

definition noDoorStrictScenario :: user_options where
  "noDoorStrictScenario =
     \<lparr> u_width = Some 36, u_height = Some 24, u_hallwayCount = Some 1, u_doorCount = Some 0,
       u_roomShapeStyle = None, u_doorWidth = None, u_windowWidth = None,
       u_maxWindowCount = Some 0, u_seed = Some 1,
       u_strictDoorCount = None, u_requireExteriorExits = None \<rparr>"

text \<open>
  The hallway of the run without doors at seed 1: the cells stamped along the L-shaped centre
  line, its group, its walls, and the attempt made of them.
\<close>

definition noDoorCells :: "cell list" where
  "noDoorCells =
     foldl (\<lambda>cells c. stampHallwayCell cells \<lparr> b_cols = 36, b_rows = 24 \<rparr> (fst c) (snd c) 1) []
       (collectPolylinePath [(3, 13), (21, 13), (21, 6)])"

definition noDoorGroup :: hallway_group where
  "noDoorGroup = \<lparr> hg_id = 1, hg_shape = ShapeL, hg_cells = noDoorCells \<rparr>"

definition noDoorWalls :: "wall list" where
  "noDoorWalls = hallwayWallsOf \<lparr> b_cols = 36, b_rows = 24 \<rparr> noDoorCells [noDoorGroup]"

definition noDoorAttempt :: attempt where
  "noDoorAttempt =
     \<lparr> a_rooms = [], a_hallways = buildHallwayMetadata [noDoorGroup],
       a_walls = compileWalls noDoorWalls [], a_openings = compileOpenings noDoorWalls [],
       a_connectedDoors = [], a_hasExteriorExit = False \<rparr>"

section \<open>Notions used in the statements\<close>

text \<open>The Euclidean length of a compiled segment, and an edge that lies on a grid line.\<close>

definition segmentLength :: "segment \<Rightarrow> real" where
  "segmentLength s = sqrt ((s_x2 s - s_x1 s)\<^sup>2 + (s_y2 s - s_y1 s)\<^sup>2)"

definition axisAligned :: "edge \<Rightarrow> bool" where
  "axisAligned e = (e_x1 e = e_x2 e \<or> e_y1 e = e_y2 e)"

section \<open>Properties of the random numbers\<close>






section \<open>Properties of edges\<close>

lemma edgeLength_horizontal:
  "e_y1 e = e_y2 e \<Longrightarrow> edgeLength e = \<bar>real_of_int (e_x2 e - e_x1 e)\<bar>"
  by (simp add: edgeLength_def)

lemma edgeLength_vertical:
  "e_x1 e = e_x2 e \<Longrightarrow> edgeLength e = \<bar>real_of_int (e_y2 e - e_y1 e)\<bar>"
  by (simp add: edgeLength_def)

lemma edgeLength_nonneg: "0 \<le> edgeLength e"
  by (simp add: edgeLength_def)

section \<open>Sample inputs\<close>

lemma strictScenario_doorCount:
  "opt_doorCount (normalizeOptions loadTime strictScenario) = 6"
  by (simp add: normalizeOptions_def strictScenario_def numberOr_def clampNumber_def)

section \<open>Properties of the door opening selector\<close>












section \<open>Invariants of room placement\<close>














section \<open>Invariants of the growth engine\<close>









section \<open>Properties of the adaptive scale loop\<close>

lemma adaptiveLoop_member:
  assumes "adaptiveLoop variant opts idxs best = Some (Some r)"
    and "\<And>i c. variant i = Some c \<Longrightarrow> P c"
    and "\<And>b. best = Some b \<Longrightarrow> P b"
  shows "P r"
  using assms
proof (induction idxs arbitrary: best)
  case Nil
  then show ?case by simp
next
  case (Cons i idxs)
  from Cons.prems(1) obtain c where c: "variant i = Some c"
    by (cases "variant i") simp_all
  show ?case
  proof (cases "candidateSucceeds opts c")
    case True
    with c Cons.prems(1) have "r = c" by simp
    with c Cons.prems(2) show ?thesis by simp
  next
    case False
    let ?best1 = "if betterCandidate c best then Some c else best"
    from False c Cons.prems(1) have run: "adaptiveLoop variant opts idxs ?best1 = Some (Some r)"
      by (simp add: Let_def)
    have b1: "P b" if "?best1 = Some b" for b
      using that c Cons.prems(2,3) by (auto split: if_splits)
    show ?thesis
      using Cons.IH [OF run] Cons.prems(2) b1 by blast
  qed
qed

lemma generateRoomsWithAdaptiveScaleFrom_member:
  assumes "generateRoomsWithAdaptiveScaleFrom variant opts = Some r"
    and "\<And>i c. variant i = Some c \<Longrightarrow> P c"
    and "P emptyCandidate"
  shows "P r"
proof (cases "adaptiveLoop variant opts [0, 1, 2, 3] None")
  case None
  with assms(1) show ?thesis by (simp add: generateRoomsWithAdaptiveScaleFrom_def)
next
  case (Some best)
  show ?thesis
  proof (cases best)
    case None
    with Some assms(1,3) show ?thesis by (simp add: generateRoomsWithAdaptiveScaleFrom_def)
  next
    case inner: (Some b)
    with Some assms(1) have "r = b" by (simp add: generateRoomsWithAdaptiveScaleFrom_def)
    with Some inner adaptiveLoop_member [of variant opts "[0, 1, 2, 3]" None b P] assms(2)
    show ?thesis by simp
  qed
qed





section \<open>Properties of the attempt loop\<close>

lemma attemptLoop_keeps_Some:
  "attemptLoop gen opts n i (Some b) \<noteq> Some None"
  by (induction n arbitrary: i b) (auto simp: Let_def split: option.splits)

lemma attemptLoop_Suc_Some:
  "attemptLoop gen opts (Suc n) i best \<noteq> Some None"
  by (cases best) (auto simp: Let_def betterAttempt_def attemptLoop_keeps_Some split: option.splits)

lemma attemptLoop_runs_Some:
  "0 < n \<Longrightarrow> attemptLoop gen opts n i best \<noteq> Some None"
  using attemptLoop_Suc_Some [of gen opts "n - 1" i best] by simp

lemma finishPlan_strict:
  "finishPlan opts True True (Some b) = Inl (DoorCountUnmet (opt_doorCount opts))
   \<or> finishPlan opts True True (Some b) = Inl ExteriorExitUnmet
   \<or> (\<exists>pl. finishPlan opts True True (Some b) = Inr pl
         \<and> int (m_placedDoorCount (p_meta pl)) = opt_doorCount opts
         \<and> m_hasExteriorExit (p_meta pl))"
proof (cases "int (length (a_connectedDoors b)) = opt_doorCount opts")
  case False
  then show ?thesis by (simp add: finishPlan_def)
next
  case True
  show ?thesis
  proof (cases "a_hasExteriorExit b")
    case False
    with True show ?thesis by (simp add: finishPlan_def)
  next
    case exits: True
    with True have "finishPlan opts True True (Some b) = Inr (planOfAttempt opts b)"
      by (simp add: finishPlan_def)
    moreover have "int (m_placedDoorCount (p_meta (planOfAttempt opts b))) = opt_doorCount opts"
      using True by (simp add: planOfAttempt_def)
    moreover have "m_hasExteriorExit (p_meta (planOfAttempt opts b))"
      using exits by (simp add: planOfAttempt_def)
    ultimately show ?thesis by blast
  qed
qed

section \<open>From the stages to the plan\<close>



lemma attemptLoop_member:
  assumes "attemptLoop gen opts n i best = Some (Some r)"
    and "\<And>s a. gen s = Some a \<Longrightarrow> P a"
    and "\<And>b. best = Some b \<Longrightarrow> P b"
  shows "P r"
  using assms
proof (induction n arbitrary: i best)
  case 0
  then show ?case by simp
next
  case (Suc n)
  from Suc.prems(1) obtain a where a: "gen (opt_seed opts + i * 7919) = Some a"
    by (cases "gen (opt_seed opts + i * 7919)") simp_all
  show ?case
  proof (cases "attemptSucceeds opts a")
    case True
    with a Suc.prems(1) have "r = a" by simp
    with a Suc.prems(2) show ?thesis by simp
  next
    case False
    let ?best1 = "if betterAttempt a best then Some a else best"
    from False a Suc.prems(1) have run: "attemptLoop gen opts n (i + 1) ?best1 = Some (Some r)"
      by (simp add: Let_def)
    have b1: "P b" if "?best1 = Some b" for b
      using that a Suc.prems(2,3) by (auto split: if_splits)
    show ?thesis
      using Suc.IH [OF run] Suc.prems(2) b1 by blast
  qed
qed

text \<open>Every plan \<^verbatim>\<open>generateFloorPlan\<close> returns is the plan of one attempt.\<close>

lemma generateFloorPlanWith_plan:
  assumes "generateFloorPlanWith gen loadTime u = Some (Inr pl)"
  shows "\<exists>seed att. gen (normalizeOptions loadTime u) (planBounds (normalizeOptions loadTime u)) seed
                        = Some att
                    \<and> pl = planOfAttempt (normalizeOptions loadTime u) att"
proof -
  let ?opts = "normalizeOptions loadTime u"
  let ?gen = "gen ?opts (planBounds ?opts)"
  from assms obtain n best where
    loop: "attemptLoop ?gen ?opts n 0 None = Some best"
    and fin: "finishPlan ?opts (flagSet (u_strictDoorCount u)) (flagSet (u_requireExteriorExits u)) best
              = Inr pl"
    by (auto simp: generateFloorPlanWith_def Let_def split: option.splits)
  from fin obtain b where b: "best = Some b" and pl: "pl = planOfAttempt ?opts b"
    by (cases best) (auto simp: finishPlan_def split: if_splits)
  from loop b have run: "attemptLoop ?gen ?opts n 0 None = Some (Some b)" by simp
  have "\<exists>seed. ?gen seed = Some b"
  proof (rule attemptLoop_member [OF run])
    fix s a assume "?gen s = Some a"
    then show "\<exists>seed. ?gen seed = Some a" by blast
  next
    fix b' :: attempt assume "None = Some b'"
    then show "\<exists>seed. ?gen seed = Some b'" by simp
  qed
  with pl show ?thesis by blast
qed

lemma generatePlanAttempt_Some:
  assumes "generatePlanAttempt opts bnds seed = Some att"
  obtains hallwayCells hallwayGroups g1 doorOpenings g2 cand windowOpenings g3 where
    "buildHallwayGroups bnds (opt_hallwayCount opts) (deriveCorridorWidthCells opts bnds)
       (createRng seed) = (hallwayCells, hallwayGroups, g1)"
    "chooseDoorOpenings (hallwayWallsOf bnds hallwayCells hallwayGroups) hallwayGroups opts g1
       = Some (doorOpenings, g2)"
    "generateRoomsWithAdaptiveScale doorOpenings (hallwayWallsOf bnds hallwayCells hallwayGroups)
       (buildHallwayGrid bnds hallwayCells) hallwayCells bnds opts (deriveLayoutScale opts bnds)
       (real_of_int (opt_roomShapeStyle opts)) seed = Some cand"
    "chooseWindowOpenings (rc_roomWalls cand) (hallwayWallsOf bnds hallwayCells hallwayGroups)
       (rc_connectedDoors cand @ rc_exteriorRoomExits cand) opts g2 = (windowOpenings, g3)"
    "att = \<lparr> a_rooms = rc_rooms cand,
             a_hallways = buildHallwayMetadata hallwayGroups,
             a_walls = compileWalls (hallwayWallsOf bnds hallwayCells hallwayGroups @ rc_roomWalls cand)
                         (rc_connectedDoors cand @ rc_exteriorRoomExits cand @ windowOpenings),
             a_openings = compileOpenings
                            (hallwayWallsOf bnds hallwayCells hallwayGroups @ rc_roomWalls cand)
                            (rc_connectedDoors cand @ rc_exteriorRoomExits cand @ windowOpenings),
             a_connectedDoors = rc_connectedDoors cand,
             a_hasExteriorExit = (length (rc_exteriorRoomExits cand) \<ge> 2) \<rparr>"
proof -
  obtain hallwayCells hallwayGroups g1 where
    h: "buildHallwayGroups bnds (opt_hallwayCount opts) (deriveCorridorWidthCells opts bnds)
          (createRng seed) = (hallwayCells, hallwayGroups, g1)"
    by (cases "buildHallwayGroups bnds (opt_hallwayCount opts) (deriveCorridorWidthCells opts bnds)
          (createRng seed)") auto
  let ?hw = "hallwayWallsOf bnds hallwayCells hallwayGroups"
  from assms h obtain doorOpenings g2 where
    d: "chooseDoorOpenings ?hw hallwayGroups opts g1 = Some (doorOpenings, g2)"
    by (cases "chooseDoorOpenings ?hw hallwayGroups opts g1")
       (auto simp: generatePlanAttempt_def Let_def)
  from assms h d obtain cand where
    c: "generateRoomsWithAdaptiveScale doorOpenings ?hw (buildHallwayGrid bnds hallwayCells)
          hallwayCells bnds opts (deriveLayoutScale opts bnds)
          (real_of_int (opt_roomShapeStyle opts)) seed = Some cand"
    by (cases "generateRoomsWithAdaptiveScale doorOpenings ?hw (buildHallwayGrid bnds hallwayCells)
          hallwayCells bnds opts (deriveLayoutScale opts bnds)
          (real_of_int (opt_roomShapeStyle opts)) seed")
       (auto simp: generatePlanAttempt_def Let_def)
  obtain windowOpenings g3 where
    w: "chooseWindowOpenings (rc_roomWalls cand) ?hw
          (rc_connectedDoors cand @ rc_exteriorRoomExits cand) opts g2 = (windowOpenings, g3)"
    by (cases "chooseWindowOpenings (rc_roomWalls cand) ?hw
          (rc_connectedDoors cand @ rc_exteriorRoomExits cand) opts g2")
  from assms h d c w have "att = \<lparr> a_rooms = rc_rooms cand,
             a_hallways = buildHallwayMetadata hallwayGroups,
             a_walls = compileWalls (?hw @ rc_roomWalls cand)
                         (rc_connectedDoors cand @ rc_exteriorRoomExits cand @ windowOpenings),
             a_openings = compileOpenings (?hw @ rc_roomWalls cand)
                            (rc_connectedDoors cand @ rc_exteriorRoomExits cand @ windowOpenings),
             a_connectedDoors = rc_connectedDoors cand,
             a_hasExteriorExit = (length (rc_exteriorRoomExits cand) \<ge> 2) \<rparr>"
    by (simp add: generatePlanAttempt_def Let_def)
  with h d c w that show ?thesis by blast
qed


section \<open>A run without doors\<close>

lemma passLoop_no_rooms:
  assumes "gs_roomRecords st = []" and "0 < n"
  shows "\<exists>st'. passLoop hallwayCells bnds scale s target n st = Some st'
               \<and> gs_roomRecords st' = [] \<and> gs_roomIdByCell st' = gs_roomIdByCell st
               \<and> gs_rng st' = gs_rng st"
proof -
  from assms(2) obtain k where "n = Suc k" by (cases n) simp_all
  with assms(1) show ?thesis by (simp add: shuffle_def)
qed

lemma growRoomCells_no_rooms:
  "growRoomCells [] [] hallwayCells bnds g scale style = Some ([], [], g)"
proof -
  define s where "s = normalizeShapeStyle style"
  define target where
    "target = \<lfloor>real_of_int (max 1 (b_cols bnds * b_rows bnds - int (length hallwayCells)))
                  * clampNumber (58 / 100 + max 0 (scale - 1) * (1 / 10)
                                 + (s - 1 / 2) * (16 / 100)) (1 / 2) (86 / 100)\<rfloor>"
  define n where
    "n = nat (min 96 (max 40 \<lceil>real_of_int target
                                 / max 1 (real (length ([] :: room list)) * (22 / 10))\<rceil>))"
  define st0 where
    "st0 = \<lparr> gs_roomRecords = [], gs_roomIdByCell = [], gs_claimed = length ([] :: (cell \<times> nat) list),
             gs_rng = g, gs_passProgress = False \<rparr>"
  have n: "0 < n" unfolding n_def by simp
  have r0: "gs_roomRecords st0 = []" unfolding st0_def by simp
  from passLoop_no_rooms [OF r0 n, of hallwayCells bnds scale s target]
  obtain st' where p: "passLoop hallwayCells bnds scale s target n st0 = Some st'"
    and r: "gs_roomRecords st' = []" "gs_roomIdByCell st' = gs_roomIdByCell st0"
      "gs_rng st' = gs_rng st0"
    by blast
  have r': "gs_roomIdByCell st' = []" "gs_rng st' = g" using r unfolding st0_def by simp_all
  have "growRoomCells [] [] hallwayCells bnds g scale style =
          (if int (length ([] :: (cell \<times> nat) list)) \<ge> target then Some ([], [], g)
           else (case passLoop hallwayCells bnds scale s target n st0 of
                   None \<Rightarrow> None
                 | Some st \<Rightarrow> Some (gs_roomRecords st, gs_roomIdByCell st, gs_rng st)))"
    unfolding growRoomCells_def Let_def s_def target_def n_def st0_def ..
  also have "\<dots> = Some ([], [], g)"
    unfolding p using r(1) r' by simp
  finally show ?thesis .
qed

lemma generateRoomsFromDoors_no_doors:
  "generateRoomsFromDoors [] hallwayWalls grid hallwayCells bnds g scale style = Some ([], [], [], g)"
  by (simp add: generateRoomsFromDoors_def placeRooms_def groupByKey_def List.map_filter_simps
      growRoomCells_no_rooms buildRoomPerimeterWallsFromCells_def mergeCollinearWallsWithRoomId_def)

lemma scaleVariant_no_doors:
  "scaleVariant [] hallwayWalls grid hallwayCells bnds opts base style seed index = Some emptyCandidate"
  by (simp add: scaleVariant_def Let_def generateRoomsFromDoors_no_doors
      chooseExteriorExitOpenings_def emptyCandidate_def)

lemma generateRoomsWithAdaptiveScale_no_doors:
  "generateRoomsWithAdaptiveScale [] hallwayWalls grid hallwayCells bnds opts base style seed
   = Some emptyCandidate"
  by (simp add: generateRoomsWithAdaptiveScale_def generateRoomsWithAdaptiveScaleFrom_def
      scaleVariant_no_doors betterCandidate_def candidateSucceeds_def emptyCandidate_def)

lemma chooseDoorOpenings_no_doors:
  "opt_doorCount opts \<le> 0 \<Longrightarrow> chooseDoorOpenings walls hallwayGroups opts g = Some ([], g)"
  by (simp add: chooseDoorOpenings_def pickDoorWalls_def Let_def)

text \<open>Without requested doors an attempt returns, with no room, no door and no exit.\<close>

lemma generatePlanAttempt_no_doors:
  assumes "opt_doorCount opts \<le> 0"
  shows "\<exists>att. generatePlanAttempt opts bnds seed = Some att
               \<and> a_rooms att = [] \<and> a_connectedDoors att = [] \<and> \<not> a_hasExteriorExit att"
proof -
  obtain hallwayCells hallwayGroups g1 where
    h: "buildHallwayGroups bnds (opt_hallwayCount opts) (deriveCorridorWidthCells opts bnds)
          (createRng seed) = (hallwayCells, hallwayGroups, g1)"
    by (cases "buildHallwayGroups bnds (opt_hallwayCount opts) (deriveCorridorWidthCells opts bnds)
          (createRng seed)") auto
  show ?thesis
    unfolding generatePlanAttempt_def Let_def h
    by (simp add: chooseDoorOpenings_no_doors [OF assms] generateRoomsWithAdaptiveScale_no_doors
        emptyCandidate_def split: prod.splits)
qed

lemma attemptLoop_total:
  assumes "\<And>s. gen s \<noteq> None"
  shows "attemptLoop gen opts n i best \<noteq> None"
proof (induction n arbitrary: i best)
  case 0
  then show ?case by simp
next
  case (Suc n)
  from assms [of "opt_seed opts + i * 7919"] obtain a where
    "gen (opt_seed opts + i * 7919) = Some a" by auto
  with Suc.IH show ?case by (simp add: Let_def)
qed



section \<open>Compiled wall segments\<close>

lemma normalizeEdge_axis:
  "x1 = x2 \<or> y1 = y2 \<Longrightarrow> axisAligned (normalizeEdge x1 y1 x2 y2)"
  by (auto simp: normalizeEdge_def axisAligned_def)

lemma edgeOfRun_axis: "axisAligned (edgeOfRun entry)"
  by (simp add: edgeOfRun_def normalizeEdge_axis)

lemma mergeCollinearWalls_axis:
  "e \<in> set (mergeCollinearWalls rawWalls) \<Longrightarrow> axisAligned e"
  by (auto simp: mergeCollinearWalls_def Let_def edgeOfRun_axis)

lemma mergeCollinearWallsWithRoomId_axis:
  "wl \<in> set (mergeCollinearWallsWithRoomId rawWalls) \<Longrightarrow> axisAligned (w_edge wl)"
  by (auto simp: mergeCollinearWallsWithRoomId_def Let_def mergeCollinearWalls_axis)

lemma hallwayWallsOf_axis:
  "wl \<in> set (hallwayWallsOf bnds hallwayCells hallwayGroups) \<Longrightarrow> axisAligned (w_edge wl)"
  by (auto simp: hallwayWallsOf_def buildHallwayWalls_def Let_def mergeCollinearWalls_axis)

lemma buildRoomPerimeterWallsFromCells_axis:
  "wl \<in> set (buildRoomPerimeterWallsFromCells roomRecords hallwayCells) \<Longrightarrow> axisAligned (w_edge wl)"
  by (simp add: buildRoomPerimeterWallsFromCells_def mergeCollinearWallsWithRoomId_axis)

text \<open>The solid intervals of the cursor loop lie inside the wall.\<close>

lemma cutSegments_bounds:
  assumes "cutSegments cursor srt = (segs, cursor')" and "0 \<le> cursor"
    and "\<And>opn. opn \<in> set srt \<Longrightarrow> o_start opn \<le> len"
    and "(a, b) \<in> set segs"
  shows "0 \<le> a \<and> b \<le> len"
  using assms
proof (induction srt arbitrary: cursor segs cursor')
  case Nil
  then show ?case by simp
next
  case (Cons opn rest)
  obtain more c2 where more: "cutSegments (max cursor (o_end opn)) rest = (more, c2)"
    by (cases "cutSegments (max cursor (o_end opn)) rest")
  from Cons.prems(1) more have segs:
    "segs = (if o_start opn > cursor then [(cursor, o_start opn)] else []) @ more"
    by (simp add: Let_def)
  from Cons.prems(4) segs consider
    (here) "o_start opn > cursor" "(a, b) = (cursor, o_start opn)" | (later) "(a, b) \<in> set more"
    by (auto split: if_splits)
  then show ?case
  proof cases
    case here
    with Cons.prems(2) Cons.prems(3) [of opn] show ?thesis by simp
  next
    case later
    have c0: "0 \<le> max cursor (o_end opn)" using Cons.prems(2) by simp
    have st: "\<And>o'. o' \<in> set rest \<Longrightarrow> o_start o' \<le> len" using Cons.prems(3) by simp
    from Cons.IH [OF more c0 st later] show ?thesis .
  qed
qed

lemma cutSegments_cursor:
  "cutSegments cursor srt = (segs, cursor') \<Longrightarrow> cursor \<le> cursor'"
proof (induction srt arbitrary: cursor segs cursor')
  case Nil
  then show ?case by simp
next
  case (Cons opn rest)
  obtain more c2 where more: "cutSegments (max cursor (o_end opn)) rest = (more, c2)"
    by (cases "cutSegments (max cursor (o_end opn)) rest")
  with Cons.prems have "cursor' = c2" by (simp add: Let_def)
  with Cons.IH [OF more] show ?case by simp
qed

text \<open>
  A compiled segment of an axis-aligned wall: the solid interval \<open>[a, b]\<close> it is made from is
  longer than 0.08 and lies inside the wall, and the segment is that interval laid on the wall.
\<close>

lemma createWallSegmentsFromOpenings_interval:
  assumes "s \<in> set (createWallSegmentsFromOpenings wl openings)"
  obtains a b where "0 \<le> a" and "b \<le> edgeLength (w_edge wl)" and "b - a > 8 / 100"
    and "s = \<lparr> s_x1 = real_of_int (e_x1 (w_edge wl))
                     + real_of_int (e_x2 (w_edge wl) - e_x1 (w_edge wl)) * a * (1 / edgeLength (w_edge wl)),
               s_y1 = real_of_int (e_y1 (w_edge wl))
                     + real_of_int (e_y2 (w_edge wl) - e_y1 (w_edge wl)) * a * (1 / edgeLength (w_edge wl)),
               s_x2 = real_of_int (e_x1 (w_edge wl))
                     + real_of_int (e_x2 (w_edge wl) - e_x1 (w_edge wl)) * b * (1 / edgeLength (w_edge wl)),
               s_y2 = real_of_int (e_y1 (w_edge wl))
                     + real_of_int (e_y2 (w_edge wl) - e_y1 (w_edge wl)) * b * (1 / edgeLength (w_edge wl)),
               s_type = Wall \<rparr>"
proof -
  define len where "len = edgeLength (w_edge wl)"
  define srt where
    "srt = filter (\<lambda>opn. o_end opn > o_start opn)
                (map (clampOpening len) (sort_key o_start openings))"
  obtain cut cursor where cut: "cutSegments 0 srt = (cut, cursor)"
    by (cases "cutSegments 0 srt")
  define segments where "segments = cut @ (if cursor < len then [(cursor, len)] else [])"
  have len0: "0 \<le> len" unfolding len_def by (rule edgeLength_nonneg)
  have st: "o_start opn \<le> len" if "opn \<in> set srt" for opn
    using that len0 unfolding srt_def by (auto simp: clampOpening_def)
  have c0: "0 \<le> cursor" using cutSegments_cursor [OF cut] .
  have inside: "0 \<le> a \<and> b \<le> len" if "(a, b) \<in> set segments" for a b
  proof (cases "(a, b) \<in> set cut")
    case True
    from cutSegments_bounds [OF cut _ st True] show ?thesis by simp
  next
    case False
    with that have "a = cursor" "b = len"
      unfolding segments_def by (auto split: if_splits)
    with c0 show ?thesis by simp
  qed
  define seg where "seg = (\<lambda>(a, b).
      \<lparr> s_x1 = real_of_int (e_x1 (w_edge wl))
                + real_of_int (e_x2 (w_edge wl) - e_x1 (w_edge wl)) * a * (if len = 0 then 0 else 1 / len),
        s_y1 = real_of_int (e_y1 (w_edge wl))
                + real_of_int (e_y2 (w_edge wl) - e_y1 (w_edge wl)) * a * (if len = 0 then 0 else 1 / len),
        s_x2 = real_of_int (e_x1 (w_edge wl))
                + real_of_int (e_x2 (w_edge wl) - e_x1 (w_edge wl)) * b * (if len = 0 then 0 else 1 / len),
        s_y2 = real_of_int (e_y1 (w_edge wl))
                + real_of_int (e_y2 (w_edge wl) - e_y1 (w_edge wl)) * b * (if len = 0 then 0 else 1 / len),
        s_type = Wall \<rparr>)"
  have "createWallSegmentsFromOpenings wl openings
        = map seg (filter (\<lambda>(a, b). b - a > 8 / 100) segments)"
    unfolding createWallSegmentsFromOpenings_def Let_def len_def [symmetric] srt_def [symmetric]
      cut segments_def seg_def
    by simp
  with assms obtain a b where ab: "(a, b) \<in> set segments" and gt: "b - a > 8 / 100"
    and s: "s = seg (a, b)"
    by auto
  from inside [OF ab] gt have "len > 0" by simp
  with s have "s = \<lparr> s_x1 = real_of_int (e_x1 (w_edge wl))
                     + real_of_int (e_x2 (w_edge wl) - e_x1 (w_edge wl)) * a * (1 / len),
               s_y1 = real_of_int (e_y1 (w_edge wl))
                     + real_of_int (e_y2 (w_edge wl) - e_y1 (w_edge wl)) * a * (1 / len),
               s_x2 = real_of_int (e_x1 (w_edge wl))
                     + real_of_int (e_x2 (w_edge wl) - e_x1 (w_edge wl)) * b * (1 / len),
               s_y2 = real_of_int (e_y1 (w_edge wl))
                     + real_of_int (e_y2 (w_edge wl) - e_y1 (w_edge wl)) * b * (1 / len),
               s_type = Wall \<rparr>"
    unfolding seg_def by simp
  with inside [OF ab] gt that show ?thesis unfolding len_def by blast
qed

lemma createWallSegmentsFromOpenings_valid:
  assumes "axisAligned (w_edge wl)" and "s \<in> set (createWallSegmentsFromOpenings wl openings)"
  shows "segmentLength s > 8 / 100 \<and> (s_x1 s = s_x2 s \<or> s_y1 s = s_y2 s)"
proof -
  let ?e = "w_edge wl"
  let ?len = "edgeLength ?e"
  from createWallSegmentsFromOpenings_interval [OF assms(2)] obtain a b where
    a0: "0 \<le> a" and b1: "b \<le> ?len" and gt: "b - a > 8 / 100"
    and s: "s = \<lparr> s_x1 = real_of_int (e_x1 ?e) + real_of_int (e_x2 ?e - e_x1 ?e) * a * (1 / ?len),
               s_y1 = real_of_int (e_y1 ?e) + real_of_int (e_y2 ?e - e_y1 ?e) * a * (1 / ?len),
               s_x2 = real_of_int (e_x1 ?e) + real_of_int (e_x2 ?e - e_x1 ?e) * b * (1 / ?len),
               s_y2 = real_of_int (e_y1 ?e) + real_of_int (e_y2 ?e - e_y1 ?e) * b * (1 / ?len),
               s_type = Wall \<rparr>"
    by blast
  from a0 b1 gt have pos: "?len > 0" by simp
  from assms(1) consider (h) "e_y1 ?e = e_y2 ?e" | (v) "e_x1 ?e = e_x2 ?e"
    by (auto simp: axisAligned_def)
  then show ?thesis
  proof cases
    case h
    define d where "d = real_of_int (e_x2 ?e - e_x1 ?e)"
    from h have len: "?len = \<bar>d\<bar>" unfolding d_def by (rule edgeLength_horizontal)
    have "s_x2 s - s_x1 s = d * (b - a) / ?len"
      unfolding s d_def using pos by (simp add: field_simps)
    then have "\<bar>s_x2 s - s_x1 s\<bar> = \<bar>d\<bar> * (b - a) / ?len"
      using gt pos by (simp add: abs_mult)
    with len pos have dxs: "\<bar>s_x2 s - s_x1 s\<bar> = b - a" by simp
    have dys: "s_y2 s = s_y1 s" unfolding s using h by simp
    from dxs dys have "segmentLength s = b - a" by (simp add: segmentLength_def)
    with gt dys show ?thesis by simp
  next
    case v
    define d where "d = real_of_int (e_y2 ?e - e_y1 ?e)"
    from v have len: "?len = \<bar>d\<bar>" unfolding d_def by (rule edgeLength_vertical)
    have "s_y2 s - s_y1 s = d * (b - a) / ?len"
      unfolding s d_def using pos by (simp add: field_simps)
    then have "\<bar>s_y2 s - s_y1 s\<bar> = \<bar>d\<bar> * (b - a) / ?len"
      using gt pos by (simp add: abs_mult)
    with len pos have dys: "\<bar>s_y2 s - s_y1 s\<bar> = b - a" by simp
    have dxs: "s_x2 s = s_x1 s" unfolding s using v by simp
    from dxs dys have "segmentLength s = b - a" by (simp add: segmentLength_def)
    with gt dxs show ?thesis by simp
  qed
qed

lemma compileWalls_valid:
  assumes "\<And>wl. wl \<in> set allWalls \<Longrightarrow> axisAligned (w_edge wl)"
    and "s \<in> set (compileWalls allWalls allOpenings)"
  shows "segmentLength s > 8 / 100 \<and> (s_x1 s = s_x2 s \<or> s_y1 s = s_y2 s)"
proof -
  from assms(2) obtain wl where wl: "wl \<in> set allWalls"
    and s: "s \<in> set (createWallSegmentsFromOpenings wl (openingsOnWall allOpenings (w_edge wl)))"
    by (auto simp: compileWalls_def)
  from createWallSegmentsFromOpenings_valid [OF assms(1) [OF wl] s] show ?thesis .
qed

text \<open>The candidate of the adaptive loop is the empty one or the outcome of one scale variant.\<close>

lemma generateRoomsWithAdaptiveScale_cases:
  assumes "generateRoomsWithAdaptiveScale doorOpenings hallwayWalls grid hallwayCells bnds opts base
             style seed = Some cand"
  obtains (empty) "cand = emptyCandidate"
  | (variant) g scale g1 g2 where
      "generateRoomsFromDoors doorOpenings hallwayWalls grid hallwayCells bnds g scale style
         = Some (rc_rooms cand, rc_roomWalls cand, rc_connectedDoors cand, g1)"
      "chooseExteriorExitOpenings (rc_roomWalls cand) (rc_rooms cand) opts g1
         = Some (rc_exteriorRoomExits cand, g2)"
      "1 \<le> scale"
proof -
  let ?P = "\<lambda>c. c = emptyCandidate \<or> (\<exists>g scale g1 g2.
      generateRoomsFromDoors doorOpenings hallwayWalls grid hallwayCells bnds g scale style
         = Some (rc_rooms c, rc_roomWalls c, rc_connectedDoors c, g1)
      \<and> chooseExteriorExitOpenings (rc_roomWalls c) (rc_rooms c) opts g1
         = Some (rc_exteriorRoomExits c, g2) \<and> 1 \<le> scale)"
  have "?P cand"
  proof (rule generateRoomsWithAdaptiveScaleFrom_member
      [OF assms [unfolded generateRoomsWithAdaptiveScale_def]])
    fix i c
    assume "scaleVariant doorOpenings hallwayWalls grid hallwayCells bnds opts base style seed i = Some c"
    then show "?P c"
      by (fastforce simp: scaleVariant_def Let_def split: option.splits)
  next
    show "?P emptyCandidate" by simp
  qed
  with empty variant show ?thesis by blast
qed

lemma generateRoomsFromDoors_Some:
  assumes "generateRoomsFromDoors doorOpenings hallwayWalls grid hallwayCells bnds g scale style
           = Some (rooms, roomWalls, doors, g')"
  obtains roomRecords m where
    "growRoomCells (ps_roomRecords (placeRooms doorOpenings hallwayWalls grid hallwayCells bnds g scale))
       (ps_roomIdByCell (placeRooms doorOpenings hallwayWalls grid hallwayCells bnds g scale))
       hallwayCells bnds
       (ps_rng (placeRooms doorOpenings hallwayWalls grid hallwayCells bnds g scale))
       scale style = Some (roomRecords, m, g')"
    "rooms = map (\<lambda>rm. buildRoomDataFromCells (rm_id rm) (rm_cells rm)) roomRecords"
    "roomWalls = buildRoomPerimeterWallsFromCells roomRecords hallwayCells"
    "doors = ps_connectedDoors (placeRooms doorOpenings hallwayWalls grid hallwayCells bnds g scale)"
  using assms
  by (auto simp: generateRoomsFromDoors_def Let_def split: option.splits)

lemma candidate_roomWalls_axis:
  assumes "generateRoomsWithAdaptiveScale doorOpenings hallwayWalls grid hallwayCells bnds opts base
             style seed = Some cand"
    and "wl \<in> set (rc_roomWalls cand)"
  shows "axisAligned (w_edge wl)"
  using assms(1)
proof (cases rule: generateRoomsWithAdaptiveScale_cases)
  case empty
  with assms(2) show ?thesis by (simp add: emptyCandidate_def)
next
  case (variant g scale g1 g2)
  from variant(1) obtain roomRecords where
    "rc_roomWalls cand = buildRoomPerimeterWallsFromCells roomRecords hallwayCells"
    by (rule generateRoomsFromDoors_Some)
  with assms(2) show ?thesis by (simp add: buildRoomPerimeterWallsFromCells_axis)
qed

lemma generatePlanAttempt_walls_valid:
  assumes "generatePlanAttempt opts bnds seed = Some att" and "s \<in> set (a_walls att)"
  shows "segmentLength s > 8 / 100 \<and> (s_x1 s = s_x2 s \<or> s_y1 s = s_y2 s)"
  using assms(1)
proof (rule generatePlanAttempt_Some)
  fix hallwayCells hallwayGroups g1 doorOpenings g2 cand windowOpenings g3
  let ?hw = "hallwayWallsOf bnds hallwayCells hallwayGroups"
  assume ad: "generateRoomsWithAdaptiveScale doorOpenings ?hw
       (buildHallwayGrid bnds hallwayCells) hallwayCells bnds opts (deriveLayoutScale opts bnds)
       (real_of_int (opt_roomShapeStyle opts)) seed = Some cand"
    and att: "att = \<lparr> a_rooms = rc_rooms cand,
             a_hallways = buildHallwayMetadata hallwayGroups,
             a_walls = compileWalls (?hw @ rc_roomWalls cand)
                         (rc_connectedDoors cand @ rc_exteriorRoomExits cand @ windowOpenings),
             a_openings = compileOpenings (?hw @ rc_roomWalls cand)
                            (rc_connectedDoors cand @ rc_exteriorRoomExits cand @ windowOpenings),
             a_connectedDoors = rc_connectedDoors cand,
             a_hasExteriorExit = (length (rc_exteriorRoomExits cand) \<ge> 2) \<rparr>"
  have ax: "axisAligned (w_edge wl)" if "wl \<in> set (?hw @ rc_roomWalls cand)" for wl
    using that hallwayWallsOf_axis candidate_roomWalls_axis [OF ad] by auto
  from assms(2) att have "s \<in> set (compileWalls (?hw @ rc_roomWalls cand)
      (rc_connectedDoors cand @ rc_exteriorRoomExits cand @ windowOpenings))" by simp
  from compileWalls_valid [OF ax this] show ?thesis .
qed
section \<open>Cell ownership\<close>















section \<open>The gate after the attempt loop\<close>

lemma generateFloorPlanWith_strict_gate:
  assumes "flagSet (u_strictDoorCount u)" and "flagSet (u_requireExteriorExits u)"
  shows "generateFloorPlanWith gen loadTime u = None
         \<or> generateFloorPlanWith gen loadTime u
             = Some (Inl (DoorCountUnmet (opt_doorCount (normalizeOptions loadTime u))))
         \<or> generateFloorPlanWith gen loadTime u = Some (Inl ExteriorExitUnmet)
         \<or> (\<exists>pl. generateFloorPlanWith gen loadTime u = Some (Inr pl)
               \<and> int (m_placedDoorCount (p_meta pl)) = opt_doorCount (normalizeOptions loadTime u)
               \<and> m_hasExteriorExit (p_meta pl))"
proof (cases "generateFloorPlanWith gen loadTime u")
  case None
  then show ?thesis by simp
next
  case (Some r)
  let ?opts = "normalizeOptions loadTime u"
  have unf: "generateFloorPlanWith gen loadTime u =
      (case attemptLoop (gen ?opts (planBounds ?opts)) ?opts 48 0 None of
           None \<Rightarrow> None
         | Some bestAttempt \<Rightarrow> Some (finishPlan ?opts True True bestAttempt))"
    using assms by (simp add: generateFloorPlanWith_def Let_def)
  with Some obtain best where
    loop: "attemptLoop (gen ?opts (planBounds ?opts)) ?opts 48 0 None = Some best"
    and r: "r = finishPlan ?opts True True best"
    by (auto split: option.splits)
  have "attemptLoop (gen ?opts (planBounds ?opts)) ?opts 48 0 None \<noteq> Some None"
    by (rule attemptLoop_runs_Some) simp
  with loop obtain b where "best = Some b"
    by (cases best) auto
  with r Some show ?thesis
    using finishPlan_strict [of ?opts b] by simp
qed

text \<open>
  A run with both flags at their default (set) and no door requested: every attempt returns
  without a room, so the loop runs all 48 attempts and the call throws the exterior-exit error.
\<close>

lemma noDoorStrictScenario_doorCount: "opt_doorCount (normalizeOptions 0 noDoorStrictScenario) = 0"
  by (simp add: normalizeOptions_def noDoorStrictScenario_def numberOr_def clampNumber_def)

lemma noDoorStrictScenario_throws:
  "generateFloorPlan 0 noDoorStrictScenario = Some (Inl ExteriorExitUnmet)"
proof -
  let ?opts = "normalizeOptions 0 noDoorStrictScenario"
  let ?gen = "generatePlanAttempt ?opts (planBounds ?opts)"
  have d: "opt_doorCount ?opts \<le> 0" by (simp add: noDoorStrictScenario_doorCount)
  have gen: "\<exists>att. ?gen s = Some att \<and> a_rooms att = [] \<and> a_connectedDoors att = []
                 \<and> \<not> a_hasExteriorExit att" for s
    by (rule generatePlanAttempt_no_doors [OF d])
  have tot: "?gen s \<noteq> None" for s using gen [of s] by auto
  from attemptLoop_total [of ?gen ?opts 48 0 None] tot obtain best where
    loop: "attemptLoop ?gen ?opts 48 0 None = Some best" by auto
  have "attemptLoop ?gen ?opts 48 0 None \<noteq> Some None"
    by (rule attemptLoop_runs_Some) simp
  with loop obtain b where b: "best = Some b" by (cases best) auto
  from loop b have run: "attemptLoop ?gen ?opts 48 0 None = Some (Some b)" by simp
  have pb: "a_connectedDoors b = [] \<and> \<not> a_hasExteriorExit b"
  proof (rule attemptLoop_member [OF run])
    fix s a assume "?gen s = Some a"
    with gen [of s] show "a_connectedDoors a = [] \<and> \<not> a_hasExteriorExit a" by auto
  next
    fix b' :: attempt assume "None = Some b'"
    then show "a_connectedDoors b' = [] \<and> \<not> a_hasExteriorExit b'" by simp
  qed
  have flags: "flagSet (u_strictDoorCount noDoorStrictScenario)"
    "flagSet (u_requireExteriorExits noDoorStrictScenario)"
    by (simp_all add: flagSet_def noDoorStrictScenario_def)
  have "generateFloorPlan 0 noDoorStrictScenario = Some (finishPlan ?opts True True (Some b))"
    unfolding generateFloorPlan_def generateFloorPlanWith_def Let_def
    using flags run by simp
  also have "finishPlan ?opts True True (Some b) = Inl ExteriorExitUnmet"
    using pb by (simp add: finishPlan_def noDoorStrictScenario_doorCount)
  finally show ?thesis .
qed

text \<open>
  C1. With both strict flags set (the scenario seed=1, width=36, height=24, hallwayCount=1,
  doorCount=6 is one such input), every outcome of \<^verbatim>\<open>generateFloorPlan\<close> is the
  door-count error, the exterior-exit error, or a plan whose \<^verbatim>\<open>meta.placedDoorCount\<close>
  equals the requested door count and whose \<^verbatim>\<open>meta.hasExteriorExit\<close> is true; the third
  error of the source (no hallway layout) cannot occur. \<open>None\<close> is the call not returning:
  the rejection loops of the door, exit and growth pickers are not shown to terminate.
\<close>

theorem generateFloorPlan_strict_gate:
  assumes "flagSet (u_strictDoorCount u)" and "flagSet (u_requireExteriorExits u)"
  shows "generateFloorPlan loadTime u = None
         \<or> generateFloorPlan loadTime u
             = Some (Inl (DoorCountUnmet (opt_doorCount (normalizeOptions loadTime u))))
         \<or> generateFloorPlan loadTime u = Some (Inl ExteriorExitUnmet)
         \<or> (\<exists>pl. generateFloorPlan loadTime u = Some (Inr pl)
               \<and> int (m_placedDoorCount (p_meta pl)) = opt_doorCount (normalizeOptions loadTime u)
               \<and> m_hasExteriorExit (p_meta pl))"
  unfolding generateFloorPlan_def
  using assms by (rule generateFloorPlanWith_strict_gate)

text \<open>
  The theorem at the scenario of the claim, and at the run without doors, whose outcome is the
  exterior-exit error.
\<close>

theorem generateFloorPlan_strict_gate_witness:
  "flagSet (u_strictDoorCount strictScenario)
   \<and> flagSet (u_requireExteriorExits strictScenario)
   \<and> opt_doorCount (normalizeOptions 0 strictScenario) = 6
   \<and> (generateFloorPlan 0 strictScenario = None
        \<or> generateFloorPlan 0 strictScenario = Some (Inl (DoorCountUnmet 6))
        \<or> generateFloorPlan 0 strictScenario = Some (Inl ExteriorExitUnmet)
        \<or> (\<exists>pl. generateFloorPlan 0 strictScenario = Some (Inr pl)
              \<and> m_placedDoorCount (p_meta pl) = 6 \<and> m_hasExteriorExit (p_meta pl)))
   \<and> generateFloorPlan 0 noDoorStrictScenario = Some (Inl ExteriorExitUnmet)"
proof -
  have flags: "flagSet (u_strictDoorCount strictScenario)"
    "flagSet (u_requireExteriorExits strictScenario)"
    by (simp_all add: flagSet_def strictScenario_def)
  from generateFloorPlan_strict_gate [OF flags, of 0]
  have "generateFloorPlan 0 strictScenario = None
        \<or> generateFloorPlan 0 strictScenario = Some (Inl (DoorCountUnmet 6))
        \<or> generateFloorPlan 0 strictScenario = Some (Inl ExteriorExitUnmet)
        \<or> (\<exists>pl. generateFloorPlan 0 strictScenario = Some (Inr pl)
              \<and> m_placedDoorCount (p_meta pl) = 6 \<and> m_hasExteriorExit (p_meta pl))"
    unfolding strictScenario_doorCount by simp
  with flags strictScenario_doorCount noDoorStrictScenario_throws show ?thesis by simp
qed
section \<open>Properties of every returned plan\<close>




section \<open>The run without doors\<close>

text \<open>
  The run of \<^verbatim>\<open>generateFloorPlan\<close> on seed 1, 36 by 24, one hallway and no door, with both
  flags off. The first draws of the generator give an L-shaped hallway; no attempt has a door,
  so the first attempt is the plan.
\<close>

lemma noDoor_draws:
  "randomInt 1 0 3 = (0, 270369)"
  "randomInt 270369 3 32 = (3, 67634689)"
  "randomInt 67634689 3 32 = (21, 2647435461)"
  "randomInt 2647435461 3 32 = (5, 307599695)"
  "randomInt 307599695 3 20 = (13, 2398689233)"
  "randomInt 2398689233 3 20 = (6, 745495504)"
  "randomInt 745495504 3 20 = (5, 632435482)"
  by (simp_all add: randomInt_def rngNext_def rngState_def)

lemma noDoor_centerline:
  "makeCenterlinePoints ShapeL \<lparr> b_cols = 36, b_rows = 24 \<rparr> 270369
   = ([(3, 13), (21, 13), (21, 6)], 632435482)"
  by (simp add: makeCenterlinePoints_def noDoor_draws Let_def)

lemma noDoor_shape: "randomShape (createRng 1) = (ShapeL, 270369)"
  by (simp add: randomShape_def createRng_def noDoor_draws)

lemma noDoor_hallwayCells:
  "generateHallwayCells \<lparr> b_cols = 36, b_rows = 24 \<rparr> ShapeL 3 270369 = (noDoorCells, 632435482)"
  by (simp add: generateHallwayCells_def noDoor_centerline noDoorCells_def)

lemma noDoorCells_length: "length noDoorCells = 84"
  unfolding noDoorCells_def by code_simp

lemma noDoorCells_setAdd: "foldl setAdd [] noDoorCells = noDoorCells"
  unfolding noDoorCells_def by code_simp

lemma noDoor_tryHallway:
  "tryHallway \<lparr> b_cols = 36, b_rows = 24 \<rparr> 3 (Suc n) (createRng 1)
   = (Some (ShapeL, noDoorCells), 632435482)"
  by (simp add: noDoor_shape noDoor_hallwayCells noDoorCells_length)

lemma noDoor_hallwayGroups:
  "buildHallwayGroups \<lparr> b_cols = 36, b_rows = 24 \<rparr> 1 3 (createRng 1)
   = (noDoorCells, [\<lparr> hg_id = 1, hg_shape = ShapeL, hg_cells = noDoorCells \<rparr>], 632435482)"
proof -
  have "tryHallway \<lparr> b_cols = 36, b_rows = 24 \<rparr> 3 12 (createRng 1)
        = (Some (ShapeL, noDoorCells), 632435482)"
    using noDoor_tryHallway [of 11] by simp
  then show ?thesis
    by (simp add: buildHallwayGroups_def noDoorCells_setAdd)
qed

lemma noDoor_hallwayWalls:
  "map w_edge (hallwayWallsOf \<lparr> b_cols = 36, b_rows = 24 \<rparr> noDoorCells
     [\<lparr> hg_id = 1, hg_shape = ShapeL, hg_cells = noDoorCells \<rparr>])
   = [\<lparr> e_x1 = 20, e_y1 = 5, e_x2 = 23, e_y2 = 5 \<rparr>,
      \<lparr> e_x1 = 20, e_y1 = 5, e_x2 = 20, e_y2 = 12 \<rparr>,
      \<lparr> e_x1 = 23, e_y1 = 5, e_x2 = 23, e_y2 = 15 \<rparr>,
      \<lparr> e_x1 = 2, e_y1 = 12, e_x2 = 20, e_y2 = 12 \<rparr>,
      \<lparr> e_x1 = 2, e_y1 = 12, e_x2 = 2, e_y2 = 15 \<rparr>,
      \<lparr> e_x1 = 2, e_y1 = 15, e_x2 = 23, e_y2 = 15 \<rparr>]"
  unfolding noDoorCells_def by code_simp

lemma noDoor_options:
  "normalizeOptions 0 noDoorScenario =
     \<lparr> opt_width = 36, opt_height = 24, opt_hallwayCount = 1, opt_doorCount = 0,
       opt_roomShapeStyle = 45, opt_doorWidth = 6 / 5, opt_windowWidth = 8 / 5,
       opt_maxWindowCount = 0, opt_seed = 1 \<rparr>"
  by (simp add: normalizeOptions_def noDoorScenario_def numberOr_def clampNumber_def)

lemma noDoor_bounds:
  "planBounds (normalizeOptions 0 noDoorScenario) = \<lparr> b_cols = 36, b_rows = 24 \<rparr>"
  by (simp add: noDoor_options planBounds_def)

text \<open>The attempt with seed 1.\<close>

lemma noDoor_attempt:
  "generatePlanAttempt (normalizeOptions 0 noDoorScenario) \<lparr> b_cols = 36, b_rows = 24 \<rparr> 1
   = Some noDoorAttempt"
proof -
  let ?opts = "normalizeOptions 0 noDoorScenario"
  have d: "opt_doorCount ?opts \<le> 0" by (simp add: noDoor_options)
  have h: "opt_hallwayCount ?opts = 1" by (simp add: noDoor_options)
  have w: "chooseWindowOpenings rw hw ds ?opts g = ([], g)" for rw hw ds g
    by (simp add: chooseWindowOpenings_def noDoor_options)
  show ?thesis
    unfolding generatePlanAttempt_def Let_def h deriveCorridorWidthCells_def noDoor_hallwayGroups
    by (simp add: chooseDoorOpenings_no_doors [OF d] generateRoomsWithAdaptiveScale_no_doors w
        emptyCandidate_def noDoorAttempt_def noDoorWalls_def noDoorGroup_def)
qed

lemma attemptLoop_no_progress:
  assumes "\<And>s. \<exists>a. gen s = Some a \<and> a_connectedDoors a = [] \<and> \<not> a_hasExteriorExit a"
  shows "attemptLoop gen opts n i (Some b) = Some (Some b)"
proof (induction n arbitrary: i)
  case 0
  then show ?case by simp
next
  case (Suc n)
  from assms [of "opt_seed opts + i * 7919"] obtain a where
    "gen (opt_seed opts + i * 7919) = Some a" "a_connectedDoors a = []" "\<not> a_hasExteriorExit a"
    by blast
  with Suc.IH show ?case
    by (simp add: Let_def betterAttempt_def attemptSucceeds_def)
qed

lemma attemptLoop_first:
  assumes "\<And>s. \<exists>a. gen s = Some a \<and> a_connectedDoors a = [] \<and> \<not> a_hasExteriorExit a"
    and "gen (opt_seed opts + i * 7919) = Some a0"
  shows "attemptLoop gen opts (Suc n) i None = Some (Some a0)"
proof -
  from assms have "\<not> a_hasExteriorExit a0" by (metis option.inject)
  with assms(2) attemptLoop_no_progress [OF assms(1)] show ?thesis
    by (simp add: Let_def betterAttempt_def attemptSucceeds_def)
qed

lemma noDoor_plan:
  "generateFloorPlan 0 noDoorScenario
   = Some (Inr (planOfAttempt (normalizeOptions 0 noDoorScenario) noDoorAttempt))"
proof -
  let ?opts = "normalizeOptions 0 noDoorScenario"
  let ?gen = "generatePlanAttempt ?opts \<lparr> b_cols = 36, b_rows = 24 \<rparr>"
  have d: "opt_doorCount ?opts \<le> 0" by (simp add: noDoor_options)
  have gen: "\<exists>a. ?gen s = Some a \<and> a_connectedDoors a = [] \<and> \<not> a_hasExteriorExit a" for s
    using generatePlanAttempt_no_doors [OF d, of "\<lparr> b_cols = 36, b_rows = 24 \<rparr>" s] by blast
  have first: "?gen (opt_seed ?opts + 0 * 7919) = Some noDoorAttempt"
    using noDoor_attempt by (simp add: noDoor_options)
  have loop: "attemptLoop ?gen ?opts 12 0 None = Some (Some noDoorAttempt)"
    using attemptLoop_first [of ?gen ?opts 0 noDoorAttempt 11, OF gen first] by simp
  have flags: "\<not> flagSet (u_strictDoorCount noDoorScenario)"
    "\<not> flagSet (u_requireExteriorExits noDoorScenario)"
    by (simp_all add: flagSet_def noDoorScenario_def)
  show ?thesis
    unfolding generateFloorPlan_def generateFloorPlanWith_def Let_def noDoor_bounds
    using flags loop by (simp add: finishPlan_def)
qed

text \<open>A wall without openings on it compiles to one segment, the wall itself.\<close>

lemma createWallSegmentsFromOpenings_solid:
  assumes "edgeLength (w_edge wl) > 8 / 100"
  shows "createWallSegmentsFromOpenings wl []
         = [\<lparr> s_x1 = real_of_int (e_x1 (w_edge wl)), s_y1 = real_of_int (e_y1 (w_edge wl)),
              s_x2 = real_of_int (e_x2 (w_edge wl)), s_y2 = real_of_int (e_y2 (w_edge wl)),
              s_type = Wall \<rparr>]"
  using assms by (simp add: createWallSegmentsFromOpenings_def Let_def algebra_simps)

lemma noDoor_wall:
  "\<lparr> s_x1 = 20, s_y1 = 5, s_x2 = 23, s_y2 = 5, s_type = Wall \<rparr> \<in> set (a_walls noDoorAttempt)"
proof -
  let ?e = "\<lparr> e_x1 = 20, e_y1 = 5, e_x2 = 23, e_y2 = 5 \<rparr>"
  from noDoor_hallwayWalls have "?e \<in> set (map w_edge noDoorWalls)"
    unfolding noDoorWalls_def noDoorGroup_def by simp
  then obtain wl where wl: "wl \<in> set noDoorWalls" and e: "w_edge wl = ?e" by auto
  have len: "edgeLength (w_edge wl) = 3" unfolding e by (simp add: edgeLength_def)
  have "createWallSegmentsFromOpenings wl []
        = [\<lparr> s_x1 = 20, s_y1 = 5, s_x2 = 23, s_y2 = 5, s_type = Wall \<rparr>]"
    using createWallSegmentsFromOpenings_solid [of wl] len e by simp
  then have "\<lparr> s_x1 = 20, s_y1 = 5, s_x2 = 23, s_y2 = 5, s_type = Wall \<rparr>
      \<in> set (createWallSegmentsFromOpenings wl (openingsOnWall [] (w_edge wl)))"
    by (simp add: openingsOnWall_def)
  with wl show ?thesis
    unfolding noDoorAttempt_def compileWalls_def by (simp only: attempt.simps set_concat set_map) blast
qed
section \<open>Wall segments of every returned plan\<close>

text \<open>
  C5. In every plan \<^verbatim>\<open>generateFloorPlan\<close> returns, every element of the walls array is
  longer than 0.08 and axis-aligned (\<open>x1 = x2\<close> or \<open>y1 = y2\<close>). Wall edges come out of
  \<^verbatim>\<open>mergeCollinearWalls\<close> on grid lines; a segment is a solid interval \<open>[a, b]\<close> of its wall
  with \<open>b - a > 0.08\<close>, laid on the wall, so its length is \<open>b - a\<close>. Lengths and offsets are
  real numbers here: the arithmetic is exact.
\<close>

theorem wall_segments_valid:
  assumes "generateFloorPlan loadTime u = Some (Inr pl)" and "s \<in> set (p_walls pl)"
  shows "segmentLength s > 8 / 100 \<and> (s_x1 s = s_x2 s \<or> s_y1 s = s_y2 s)"
proof -
  let ?opts = "normalizeOptions loadTime u"
  from generateFloorPlanWith_plan [OF assms(1) [unfolded generateFloorPlan_def]]
  obtain seed att where att: "generatePlanAttempt ?opts (planBounds ?opts) seed = Some att"
    and pl: "pl = planOfAttempt ?opts att"
    by blast
  from assms(2) pl have "s \<in> set (a_walls att)" by (simp add: planOfAttempt_def)
  from generatePlanAttempt_walls_valid [OF att this] show ?thesis .
qed

text \<open>The run without doors: the top wall of the hallway, from (20, 5) to (23, 5), is in the plan.\<close>

theorem wall_segments_valid_witness:
  "generateFloorPlan 0 noDoorScenario
     = Some (Inr (planOfAttempt (normalizeOptions 0 noDoorScenario) noDoorAttempt))
   \<and> \<lparr> s_x1 = 20, s_y1 = 5, s_x2 = 23, s_y2 = 5, s_type = Wall \<rparr>
       \<in> set (p_walls (planOfAttempt (normalizeOptions 0 noDoorScenario) noDoorAttempt))
   \<and> segmentLength \<lparr> s_x1 = 20, s_y1 = 5, s_x2 = 23, s_y2 = 5, s_type = Wall \<rparr> > 8 / 100
   \<and> s_y1 \<lparr> s_x1 = 20, s_y1 = 5, s_x2 = 23, s_y2 = 5, s_type = Wall \<rparr>
       = s_y2 \<lparr> s_x1 = 20, s_y1 = 5, s_x2 = 23, s_y2 = 5, s_type = Wall \<rparr>"
proof -
  let ?s = "\<lparr> s_x1 = 20, s_y1 = 5, s_x2 = 23, s_y2 = 5, s_type = Wall \<rparr>"
  have m: "?s \<in> set (p_walls (planOfAttempt (normalizeOptions 0 noDoorScenario) noDoorAttempt))"
    using noDoor_wall by (simp add: planOfAttempt_def)
  from wall_segments_valid [OF noDoor_plan m] noDoor_plan m show ?thesis by simp
qed
section \<open>Cell ownership in every returned plan\<close>



end
